theory Spec2Isabelle
  imports Complex_Main "HOL-Library.Sublist" "HOL-Library.AList"
begin

text \<open>
  The operation engine of the UniFi command-line tool and tool server: building a request
  from a catalog entry and the caller's parameters (\<^verbatim>\<open>resolveRequest\<close>), fetching every
  page of a list operation (\<^verbatim>\<open>executeAllPages\<close>), resolving a symbolic site identifier
  with a session cache (\<^verbatim>\<open>resolveSiteId\<close>) and unfolding the schema document into
  self-contained JSON schemas (\<^verbatim>\<open>toJsonSchema\<close>). Each function is translated from its
  TypeScript source; the transport is a parameter, a function on an explicit state.
\<close>

section \<open>Values exchanged with the transport\<close>

text \<open>
  The transport hands back whatever \<^verbatim>\<open>JSON.parse\<close> produced, typed \<^verbatim>\<open>unknown\<close>
  in the source. Numbers are JavaScript doubles: the finite ones are rationals, and the
  three special values are kept apart because \<^verbatim>\<open>typeof\<close> calls them numbers too.
  \<open>JNull\<close> stands for both \<^verbatim>\<open>null\<close> and \<^verbatim>\<open>undefined\<close>: the code modelled here
  never tells them apart (a property read on either raises a TypeError, both are falsy,
  both are skipped by \<^verbatim>\<open>?.\<close> and \<^verbatim>\<open>??\<close>). Objects are association lists in
  insertion order and only their own properties are looked up. Strings are lists of
  characters; every operation below inspects ASCII characters only.
\<close>

datatype jsnum = Finite rat | NaN | PosInf | NegInf

datatype json =
    JNull
  | JBool bool
  | JNum jsnum
  | JStr string
  | JArr "json list"
  | JObj "(string \<times> json) list"

datatype error = TypeError | TransportError string json

text \<open>\<^verbatim>\<open>n >= x\<close> for an array length \<open>n\<close> and a number \<open>x\<close>.\<close>

fun length_ge :: "nat \<Rightarrow> jsnum \<Rightarrow> bool" where
  "length_ge n (Finite q) = (q \<le> of_nat n)"
| "length_ge n NaN = False"
| "length_ge n PosInf = False"
| "length_ge n NegInf = True"

text \<open>JavaScript truthiness.\<close>

fun truthy :: "json \<Rightarrow> bool" where
  "truthy JNull = False"
| "truthy (JBool b) = b"
| "truthy (JNum (Finite q)) = (q \<noteq> 0)"
| "truthy (JNum NaN) = False"
| "truthy (JNum PosInf) = True"
| "truthy (JNum NegInf) = True"
| "truthy (JStr s) = (s \<noteq> [])"
| "truthy (JArr xs) = True"
| "truthy (JObj kvs) = True"

text \<open>
  Reading property \<open>k\<close> of a value: a TypeError on \<open>JNull\<close>, the own property of an
  object, and nothing (\<^verbatim>\<open>undefined\<close>) on every other value, none of which carries one
  of the property names read below.
\<close>

fun get_prop :: "json \<Rightarrow> string \<Rightarrow> error + json option" where
  "get_prop JNull k = Inl TypeError"
| "get_prop (JObj kvs) k = Inr (map_of kvs k)"
| "get_prop v k = Inr None"

section \<open>Strings\<close>

text \<open>An optional string used as a condition: \<^verbatim>\<open>undefined\<close> and the empty string are falsy.\<close>

definition truthy_str :: "string option \<Rightarrow> string option" where
  "truthy_str x = (case x of None \<Rightarrow> None | Some s \<Rightarrow> if s \<noteq> [] then Some s else None)"

text \<open>
  \<^verbatim>\<open>String(n)\<close> for a non-negative integer: its decimal digits (what JavaScript prints
  for every integer below \<open>10^21\<close>).
\<close>

definition digit_char :: "nat \<Rightarrow> char" where
  "digit_char d = ''0123456789'' ! d"

fun js_String :: "nat \<Rightarrow> string" where
  "js_String n = (if n < 10 then [digit_char n] else js_String (n div 10) @ [digit_char (n mod 10)])"

declare js_String.simps [simp del]

text \<open>
  \<open>split_first pat s\<close> finds the first occurrence of \<open>pat\<close> in \<open>s\<close> and returns what
  precedes and what follows it.
\<close>

fun split_first :: "string \<Rightarrow> string \<Rightarrow> (string \<times> string) option" where
  "split_first pat [] = (if pat = [] then Some ([], []) else None)"
| "split_first pat (c # cs) =
     (if prefix pat (c # cs) then Some ([], drop (length pat) (c # cs))
      else map_option (\<lambda>(pre, post). (c # pre, post)) (split_first pat cs))"

text \<open>
  The replacement text of \<^verbatim>\<open>String.prototype.replace\<close> is a template, also when the
  pattern is a string: \<^verbatim>\<open>$$\<close> inserts a dollar sign, \<^verbatim>\<open>$&\<close> the matched text,
  \<^verbatim>\<open>$`\<close> the text before the match and \<^verbatim>\<open>$'\<close> the text after it. With a string
  pattern there are no capture groups, so \<^verbatim>\<open>$1\<close> and \<^verbatim>\<open>$<\<close> stay as they are.
\<close>

fun GetSubstitution :: "string \<Rightarrow> string \<Rightarrow> string \<Rightarrow> string \<Rightarrow> string" where
  "GetSubstitution matched pre post [] = []"
| "GetSubstitution matched pre post [c] = [c]"
| "GetSubstitution matched pre post (c # d # rest) =
     (if c = CHR ''$'' \<and> d = CHR ''$'' then CHR ''$'' # GetSubstitution matched pre post rest
      else if c = CHR ''$'' \<and> d = CHR 0x60 then pre @ GetSubstitution matched pre post rest
      else if c = CHR ''$'' \<and> d = CHR ''&'' then matched @ GetSubstitution matched pre post rest
      else if c = CHR ''$'' \<and> d = CHR 0x27 then post @ GetSubstitution matched pre post rest
      else c # GetSubstitution matched pre post (d # rest))"

text \<open>\<^verbatim>\<open>s.replace(pat, rep)\<close> with a string pattern: the first occurrence only.\<close>

definition js_replace :: "string \<Rightarrow> string \<Rightarrow> string \<Rightarrow> string" where
  "js_replace s pat rep =
     (case split_first pat s of
        None \<Rightarrow> s
      | Some (pre, post) \<Rightarrow> pre @ GetSubstitution pat pre post rep @ post)"

definition is_lower :: "char \<Rightarrow> bool" where
  "is_lower c = (97 \<le> (of_char c :: nat) \<and> (of_char c :: nat) \<le> 122)"

definition is_upper :: "char \<Rightarrow> bool" where
  "is_upper c = (65 \<le> (of_char c :: nat) \<and> (of_char c :: nat) \<le> 90)"

definition toUpperCase :: "char \<Rightarrow> char" where
  "toUpperCase c = (if is_lower c then char_of ((of_char c :: nat) - 32) else c)"

definition toLowerCase :: "char \<Rightarrow> char" where
  "toLowerCase c = (if is_upper c then char_of ((of_char c :: nat) + 32) else c)"

text \<open>
  \<^verbatim>\<open>camelCase\<close> of \<^verbatim>\<open>commands.ts\<close> is two replacements in a row; the first is
  \<^verbatim>\<open>s.replace(/-([a-z])/g, (_, c) => c.toUpperCase())\<close>
\<close>

fun dash_to_upper :: "string \<Rightarrow> string" where
  "dash_to_upper (c # d # cs) =
     (if c = CHR ''-'' \<and> is_lower d then toUpperCase d # dash_to_upper cs
      else c # dash_to_upper (d # cs))"
| "dash_to_upper cs = cs"

text \<open>
  and the second \<^verbatim>\<open>s.replace(/([A-Z])/g, (m, _c, i) => i === 0 ? m.toLowerCase() : m)\<close>,
  which changes an upper-case letter at index 0 only.
\<close>

fun lower_first :: "string \<Rightarrow> string" where
  "lower_first [] = []"
| "lower_first (c # cs) = (if is_upper c then toLowerCase c # cs else c # cs)"

definition camelCase :: "string \<Rightarrow> string" where
  "camelCase s = lower_first (dash_to_upper s)"

section \<open>The operation catalog\<close>

text \<open>
  \<^verbatim>\<open>CmdDef\<close> and the table \<^verbatim>\<open>COMMANDS\<close> of \<^verbatim>\<open>commands.ts\<close>, entry by entry (the
  field \<^verbatim>\<open>method\<close> is \<open>http_method\<close> here).
\<close>

record ArgDef =
  name :: string
  desc :: string

record QueryDef =
  name :: string
  required :: bool
  desc :: string

record CmdDef =
  group :: "string option"
  action :: string
  operationId :: string
  http_method :: string
  path :: string
  summary :: string
  args :: "ArgDef list"
  needsSite :: bool
  paginatable :: bool
  hasBody :: bool
  extraQuery :: "QueryDef list"

definition COMMANDS :: "CmdDef list" where
  "COMMANDS = [
  \<lparr>group = None, action = ''info'', operationId = ''getInfo'',
   http_method = ''GET'', path = ''/v1/info'',
   summary = ''Show UniFi Network application info'',
   args = [],
   needsSite = False, paginatable = False, hasBody = False,
   extraQuery = []\<rparr>,
  \<lparr>group = Some ''sites'', action = ''list'', operationId = ''getSiteOverviewPage'',
   http_method = ''GET'', path = ''/v1/sites'',
   summary = ''List all local sites (site IDs are needed for most commands)'',
   args = [],
   needsSite = False, paginatable = True, hasBody = False,
   extraQuery = []\<rparr>,
  \<lparr>group = Some ''devices'', action = ''list'', operationId = ''getAdoptedDeviceOverviewPage'',
   http_method = ''GET'', path = ''/v1/sites/{siteId}/devices'',
   summary = ''List adopted devices on a site'',
   args = [],
   needsSite = True, paginatable = True, hasBody = False,
   extraQuery = []\<rparr>,
  \<lparr>group = Some ''devices'', action = ''get'', operationId = ''getAdoptedDeviceDetails'',
   http_method = ''GET'', path = ''/v1/sites/{siteId}/devices/{deviceId}'',
   summary = ''Get detailed info for an adopted device'',
   args = [\<lparr>ArgDef.name = ''deviceId'', desc = ''Device ID''\<rparr>],
   needsSite = True, paginatable = False, hasBody = False,
   extraQuery = []\<rparr>,
  \<lparr>group = Some ''devices'', action = ''adopt'', operationId = ''adoptDevice'',
   http_method = ''POST'', path = ''/v1/sites/{siteId}/devices'',
   summary = ''Adopt a device to a site'',
   args = [],
   needsSite = True, paginatable = False, hasBody = True,
   extraQuery = []\<rparr>,
  \<lparr>group = Some ''devices'', action = ''remove'', operationId = ''removeDevice'',
   http_method = ''DELETE'', path = ''/v1/sites/{siteId}/devices/{deviceId}'',
   summary = (''Remove (unadopt) a device '' @ [CHR 0xE2] @ [CHR 0x80] @ [CHR 0x94] @ '' resets to factory defaults if online''),
   args = [\<lparr>ArgDef.name = ''deviceId'', desc = ''Device ID''\<rparr>],
   needsSite = True, paginatable = False, hasBody = False,
   extraQuery = []\<rparr>,
  \<lparr>group = Some ''devices'', action = ''stats'', operationId = ''getAdoptedDeviceLatestStatistics'',
   http_method = ''GET'', path = ''/v1/sites/{siteId}/devices/{deviceId}/statistics/latest'',
   summary = ''Get latest real-time statistics (CPU, memory, uptime, throughput)'',
   args = [\<lparr>ArgDef.name = ''deviceId'', desc = ''Device ID''\<rparr>],
   needsSite = True, paginatable = False, hasBody = False,
   extraQuery = []\<rparr>,
  \<lparr>group = Some ''devices'', action = ''action'', operationId = ''executeAdoptedDeviceAction'',
   http_method = ''POST'', path = ''/v1/sites/{siteId}/devices/{deviceId}/actions'',
   summary = ''Execute an action on a device (e.g. restart)'',
   args = [\<lparr>ArgDef.name = ''deviceId'', desc = ''Device ID''\<rparr>],
   needsSite = True, paginatable = False, hasBody = True,
   extraQuery = []\<rparr>,
  \<lparr>group = Some ''devices'', action = ''port-action'', operationId = ''executePortAction'',
   http_method = ''POST'', path = ''/v1/sites/{siteId}/devices/{deviceId}/interfaces/ports/{portIdx}/actions'',
   summary = ''Execute an action on a specific device port (e.g. PoE power-cycle)'',
   args = [\<lparr>ArgDef.name = ''deviceId'', desc = ''Device ID''\<rparr>, \<lparr>ArgDef.name = ''portIdx'', desc = ''Port index''\<rparr>],
   needsSite = True, paginatable = False, hasBody = True,
   extraQuery = []\<rparr>,
  \<lparr>group = Some ''devices'', action = ''pending'', operationId = ''getPendingDevicePage'',
   http_method = ''GET'', path = ''/v1/pending-devices'',
   summary = ''List devices pending adoption'',
   args = [],
   needsSite = False, paginatable = True, hasBody = False,
   extraQuery = []\<rparr>,
  \<lparr>group = Some ''clients'', action = ''list'', operationId = ''getConnectedClientOverviewPage'',
   http_method = ''GET'', path = ''/v1/sites/{siteId}/clients'',
   summary = ''List connected clients (devices, phones, VPN users, etc.)'',
   args = [],
   needsSite = True, paginatable = True, hasBody = False,
   extraQuery = []\<rparr>,
  \<lparr>group = Some ''clients'', action = ''get'', operationId = ''getConnectedClientDetails'',
   http_method = ''GET'', path = ''/v1/sites/{siteId}/clients/{clientId}'',
   summary = ''Get detailed info about a connected client'',
   args = [\<lparr>ArgDef.name = ''clientId'', desc = ''Client ID''\<rparr>],
   needsSite = True, paginatable = False, hasBody = False,
   extraQuery = []\<rparr>,
  \<lparr>group = Some ''clients'', action = ''action'', operationId = ''executeConnectedClientAction'',
   http_method = ''POST'', path = ''/v1/sites/{siteId}/clients/{clientId}/actions'',
   summary = ''Execute an action on a connected client'',
   args = [\<lparr>ArgDef.name = ''clientId'', desc = ''Client ID''\<rparr>],
   needsSite = True, paginatable = False, hasBody = True,
   extraQuery = []\<rparr>,
  \<lparr>group = Some ''networks'', action = ''list'', operationId = ''getNetworksOverviewPage'',
   http_method = ''GET'', path = ''/v1/sites/{siteId}/networks'',
   summary = ''List all networks on a site'',
   args = [],
   needsSite = True, paginatable = True, hasBody = False,
   extraQuery = []\<rparr>,
  \<lparr>group = Some ''networks'', action = ''get'', operationId = ''getNetworkDetails'',
   http_method = ''GET'', path = ''/v1/sites/{siteId}/networks/{networkId}'',
   summary = ''Get detailed info about a network'',
   args = [\<lparr>ArgDef.name = ''networkId'', desc = ''Network ID''\<rparr>],
   needsSite = True, paginatable = False, hasBody = False,
   extraQuery = []\<rparr>,
  \<lparr>group = Some ''networks'', action = ''create'', operationId = ''createNetwork'',
   http_method = ''POST'', path = ''/v1/sites/{siteId}/networks'',
   summary = ''Create a new network'',
   args = [],
   needsSite = True, paginatable = False, hasBody = True,
   extraQuery = []\<rparr>,
  \<lparr>group = Some ''networks'', action = ''update'', operationId = ''updateNetwork'',
   http_method = ''PUT'', path = ''/v1/sites/{siteId}/networks/{networkId}'',
   summary = ''Update an existing network'',
   args = [\<lparr>ArgDef.name = ''networkId'', desc = ''Network ID''\<rparr>],
   needsSite = True, paginatable = False, hasBody = True,
   extraQuery = []\<rparr>,
  \<lparr>group = Some ''networks'', action = ''delete'', operationId = ''deleteNetwork'',
   http_method = ''DELETE'', path = ''/v1/sites/{siteId}/networks/{networkId}'',
   summary = ''Delete a network'',
   args = [\<lparr>ArgDef.name = ''networkId'', desc = ''Network ID''\<rparr>],
   needsSite = True, paginatable = False, hasBody = False,
   extraQuery = [\<lparr>QueryDef.name = ''force'', required = False, desc = ''Force deletion''\<rparr>]\<rparr>,
  \<lparr>group = Some ''networks'', action = ''references'', operationId = ''getNetworkReferences'',
   http_method = ''GET'', path = ''/v1/sites/{siteId}/networks/{networkId}/references'',
   summary = ''Get resources that reference this network'',
   args = [\<lparr>ArgDef.name = ''networkId'', desc = ''Network ID''\<rparr>],
   needsSite = True, paginatable = False, hasBody = False,
   extraQuery = []\<rparr>,
  \<lparr>group = Some ''firewall-zones'', action = ''list'', operationId = ''getFirewallZones'',
   http_method = ''GET'', path = ''/v1/sites/{siteId}/firewall/zones'',
   summary = ''List all firewall zones'',
   args = [],
   needsSite = True, paginatable = True, hasBody = False,
   extraQuery = []\<rparr>,
  \<lparr>group = Some ''firewall-zones'', action = ''get'', operationId = ''getFirewallZone'',
   http_method = ''GET'', path = ''/v1/sites/{siteId}/firewall/zones/{firewallZoneId}'',
   summary = ''Get a firewall zone'',
   args = [\<lparr>ArgDef.name = ''firewallZoneId'', desc = ''Firewall zone ID''\<rparr>],
   needsSite = True, paginatable = False, hasBody = False,
   extraQuery = []\<rparr>,
  \<lparr>group = Some ''firewall-zones'', action = ''create'', operationId = ''createFirewallZone'',
   http_method = ''POST'', path = ''/v1/sites/{siteId}/firewall/zones'',
   summary = ''Create a custom firewall zone'',
   args = [],
   needsSite = True, paginatable = False, hasBody = True,
   extraQuery = []\<rparr>,
  \<lparr>group = Some ''firewall-zones'', action = ''update'', operationId = ''updateFirewallZone'',
   http_method = ''PUT'', path = ''/v1/sites/{siteId}/firewall/zones/{firewallZoneId}'',
   summary = ''Update a firewall zone'',
   args = [\<lparr>ArgDef.name = ''firewallZoneId'', desc = ''Firewall zone ID''\<rparr>],
   needsSite = True, paginatable = False, hasBody = True,
   extraQuery = []\<rparr>,
  \<lparr>group = Some ''firewall-zones'', action = ''delete'', operationId = ''deleteFirewallZone'',
   http_method = ''DELETE'', path = ''/v1/sites/{siteId}/firewall/zones/{firewallZoneId}'',
   summary = ''Delete a custom firewall zone'',
   args = [\<lparr>ArgDef.name = ''firewallZoneId'', desc = ''Firewall zone ID''\<rparr>],
   needsSite = True, paginatable = False, hasBody = False,
   extraQuery = []\<rparr>,
  \<lparr>group = Some ''firewall-policies'', action = ''list'', operationId = ''getFirewallPolicies'',
   http_method = ''GET'', path = ''/v1/sites/{siteId}/firewall/policies'',
   summary = ''List all firewall policies'',
   args = [],
   needsSite = True, paginatable = True, hasBody = False,
   extraQuery = []\<rparr>,
  \<lparr>group = Some ''firewall-policies'', action = ''get'', operationId = ''getFirewallPolicy'',
   http_method = ''GET'', path = ''/v1/sites/{siteId}/firewall/policies/{firewallPolicyId}'',
   summary = ''Get a firewall policy'',
   args = [\<lparr>ArgDef.name = ''firewallPolicyId'', desc = ''Firewall policy ID''\<rparr>],
   needsSite = True, paginatable = False, hasBody = False,
   extraQuery = []\<rparr>,
  \<lparr>group = Some ''firewall-policies'', action = ''create'', operationId = ''createFirewallPolicy'',
   http_method = ''POST'', path = ''/v1/sites/{siteId}/firewall/policies'',
   summary = ''Create a new firewall policy'',
   args = [],
   needsSite = True, paginatable = False, hasBody = True,
   extraQuery = []\<rparr>,
  \<lparr>group = Some ''firewall-policies'', action = ''update'', operationId = ''updateFirewallPolicy'',
   http_method = ''PUT'', path = ''/v1/sites/{siteId}/firewall/policies/{firewallPolicyId}'',
   summary = ''Update an existing firewall policy'',
   args = [\<lparr>ArgDef.name = ''firewallPolicyId'', desc = ''Firewall policy ID''\<rparr>],
   needsSite = True, paginatable = False, hasBody = True,
   extraQuery = []\<rparr>,
  \<lparr>group = Some ''firewall-policies'', action = ''patch'', operationId = ''patchFirewallPolicy'',
   http_method = ''PATCH'', path = ''/v1/sites/{siteId}/firewall/policies/{firewallPolicyId}'',
   summary = ''Patch a firewall policy (partial update, e.g. toggle logging)'',
   args = [\<lparr>ArgDef.name = ''firewallPolicyId'', desc = ''Firewall policy ID''\<rparr>],
   needsSite = True, paginatable = False, hasBody = True,
   extraQuery = []\<rparr>,
  \<lparr>group = Some ''firewall-policies'', action = ''delete'', operationId = ''deleteFirewallPolicy'',
   http_method = ''DELETE'', path = ''/v1/sites/{siteId}/firewall/policies/{firewallPolicyId}'',
   summary = ''Delete a firewall policy'',
   args = [\<lparr>ArgDef.name = ''firewallPolicyId'', desc = ''Firewall policy ID''\<rparr>],
   needsSite = True, paginatable = False, hasBody = False,
   extraQuery = []\<rparr>,
  \<lparr>group = Some ''firewall-policies'', action = ''ordering'', operationId = ''getFirewallPolicyOrdering'',
   http_method = ''GET'', path = ''/v1/sites/{siteId}/firewall/policies/ordering'',
   summary = ''Get firewall policy ordering for a zone pair'',
   args = [],
   needsSite = True, paginatable = False, hasBody = False,
   extraQuery = [\<lparr>QueryDef.name = ''sourceFirewallZoneId'', required = True, desc = ''Source zone ID''\<rparr>, \<lparr>QueryDef.name = ''destinationFirewallZoneId'', required = True, desc = ''Destination zone ID''\<rparr>]\<rparr>,
  \<lparr>group = Some ''firewall-policies'', action = ''reorder'', operationId = ''updateFirewallPolicyOrdering'',
   http_method = ''PUT'', path = ''/v1/sites/{siteId}/firewall/policies/ordering'',
   summary = ''Reorder firewall policies for a zone pair'',
   args = [],
   needsSite = True, paginatable = False, hasBody = True,
   extraQuery = [\<lparr>QueryDef.name = ''sourceFirewallZoneId'', required = True, desc = ''Source zone ID''\<rparr>, \<lparr>QueryDef.name = ''destinationFirewallZoneId'', required = True, desc = ''Destination zone ID''\<rparr>]\<rparr>,
  \<lparr>group = Some ''dns'', action = ''list'', operationId = ''getDnsPolicyPage'',
   http_method = ''GET'', path = ''/v1/sites/{siteId}/dns/policies'',
   summary = ''List DNS policies'',
   args = [],
   needsSite = True, paginatable = True, hasBody = False,
   extraQuery = []\<rparr>,
  \<lparr>group = Some ''dns'', action = ''get'', operationId = ''getDnsPolicy'',
   http_method = ''GET'', path = ''/v1/sites/{siteId}/dns/policies/{dnsPolicyId}'',
   summary = ''Get a DNS policy'',
   args = [\<lparr>ArgDef.name = ''dnsPolicyId'', desc = ''DNS policy ID''\<rparr>],
   needsSite = True, paginatable = False, hasBody = False,
   extraQuery = []\<rparr>,
  \<lparr>group = Some ''dns'', action = ''create'', operationId = ''createDnsPolicy'',
   http_method = ''POST'', path = ''/v1/sites/{siteId}/dns/policies'',
   summary = ''Create a new DNS policy'',
   args = [],
   needsSite = True, paginatable = False, hasBody = True,
   extraQuery = []\<rparr>,
  \<lparr>group = Some ''dns'', action = ''update'', operationId = ''updateDnsPolicy'',
   http_method = ''PUT'', path = ''/v1/sites/{siteId}/dns/policies/{dnsPolicyId}'',
   summary = ''Update a DNS policy'',
   args = [\<lparr>ArgDef.name = ''dnsPolicyId'', desc = ''DNS policy ID''\<rparr>],
   needsSite = True, paginatable = False, hasBody = True,
   extraQuery = []\<rparr>,
  \<lparr>group = Some ''dns'', action = ''delete'', operationId = ''deleteDnsPolicy'',
   http_method = ''DELETE'', path = ''/v1/sites/{siteId}/dns/policies/{dnsPolicyId}'',
   summary = ''Delete a DNS policy'',
   args = [\<lparr>ArgDef.name = ''dnsPolicyId'', desc = ''DNS policy ID''\<rparr>],
   needsSite = True, paginatable = False, hasBody = False,
   extraQuery = []\<rparr>,
  \<lparr>group = Some ''wifi'', action = ''list'', operationId = ''getWifiBroadcastPage'',
   http_method = ''GET'', path = ''/v1/sites/{siteId}/wifi/broadcasts'',
   summary = ''List WiFi broadcasts (SSIDs)'',
   args = [],
   needsSite = True, paginatable = True, hasBody = False,
   extraQuery = []\<rparr>,
  \<lparr>group = Some ''wifi'', action = ''get'', operationId = ''getWifiBroadcastDetails'',
   http_method = ''GET'', path = ''/v1/sites/{siteId}/wifi/broadcasts/{wifiBroadcastId}'',
   summary = ''Get WiFi broadcast details'',
   args = [\<lparr>ArgDef.name = ''wifiBroadcastId'', desc = ''WiFi broadcast ID''\<rparr>],
   needsSite = True, paginatable = False, hasBody = False,
   extraQuery = []\<rparr>,
  \<lparr>group = Some ''wifi'', action = ''create'', operationId = ''createWifiBroadcast'',
   http_method = ''POST'', path = ''/v1/sites/{siteId}/wifi/broadcasts'',
   summary = ''Create a new WiFi broadcast'',
   args = [],
   needsSite = True, paginatable = False, hasBody = True,
   extraQuery = []\<rparr>,
  \<lparr>group = Some ''wifi'', action = ''update'', operationId = ''updateWifiBroadcast'',
   http_method = ''PUT'', path = ''/v1/sites/{siteId}/wifi/broadcasts/{wifiBroadcastId}'',
   summary = ''Update a WiFi broadcast'',
   args = [\<lparr>ArgDef.name = ''wifiBroadcastId'', desc = ''WiFi broadcast ID''\<rparr>],
   needsSite = True, paginatable = False, hasBody = True,
   extraQuery = []\<rparr>,
  \<lparr>group = Some ''wifi'', action = ''delete'', operationId = ''deleteWifiBroadcast'',
   http_method = ''DELETE'', path = ''/v1/sites/{siteId}/wifi/broadcasts/{wifiBroadcastId}'',
   summary = ''Delete a WiFi broadcast'',
   args = [\<lparr>ArgDef.name = ''wifiBroadcastId'', desc = ''WiFi broadcast ID''\<rparr>],
   needsSite = True, paginatable = False, hasBody = False,
   extraQuery = [\<lparr>QueryDef.name = ''force'', required = False, desc = ''Force deletion''\<rparr>]\<rparr>,
  \<lparr>group = Some ''hotspot'', action = ''list'', operationId = ''getVouchers'',
   http_method = ''GET'', path = ''/v1/sites/{siteId}/hotspot/vouchers'',
   summary = ''List hotspot vouchers'',
   args = [],
   needsSite = True, paginatable = True, hasBody = False,
   extraQuery = []\<rparr>,
  \<lparr>group = Some ''hotspot'', action = ''get'', operationId = ''getVoucher'',
   http_method = ''GET'', path = ''/v1/sites/{siteId}/hotspot/vouchers/{voucherId}'',
   summary = ''Get voucher details'',
   args = [\<lparr>ArgDef.name = ''voucherId'', desc = ''Voucher ID''\<rparr>],
   needsSite = True, paginatable = False, hasBody = False,
   extraQuery = []\<rparr>,
  \<lparr>group = Some ''hotspot'', action = ''create'', operationId = ''createVouchers'',
   http_method = ''POST'', path = ''/v1/sites/{siteId}/hotspot/vouchers'',
   summary = ''Generate one or more hotspot vouchers'',
   args = [],
   needsSite = True, paginatable = False, hasBody = True,
   extraQuery = []\<rparr>,
  \<lparr>group = Some ''hotspot'', action = ''delete'', operationId = ''deleteVoucher'',
   http_method = ''DELETE'', path = ''/v1/sites/{siteId}/hotspot/vouchers/{voucherId}'',
   summary = ''Delete a specific voucher'',
   args = [\<lparr>ArgDef.name = ''voucherId'', desc = ''Voucher ID''\<rparr>],
   needsSite = True, paginatable = False, hasBody = False,
   extraQuery = []\<rparr>,
  \<lparr>group = Some ''hotspot'', action = ''delete-all'', operationId = ''deleteVouchers'',
   http_method = ''DELETE'', path = ''/v1/sites/{siteId}/hotspot/vouchers'',
   summary = ''Delete vouchers matching a filter'',
   args = [],
   needsSite = True, paginatable = False, hasBody = False,
   extraQuery = [\<lparr>QueryDef.name = ''filter'', required = True, desc = ''Filter expression''\<rparr>]\<rparr>,
  \<lparr>group = Some ''acl'', action = ''list'', operationId = ''getAclRulePage'',
   http_method = ''GET'', path = ''/v1/sites/{siteId}/acl-rules'',
   summary = ''List ACL rules'',
   args = [],
   needsSite = True, paginatable = True, hasBody = False,
   extraQuery = []\<rparr>,
  \<lparr>group = Some ''acl'', action = ''get'', operationId = ''getAclRule'',
   http_method = ''GET'', path = ''/v1/sites/{siteId}/acl-rules/{aclRuleId}'',
   summary = ''Get an ACL rule'',
   args = [\<lparr>ArgDef.name = ''aclRuleId'', desc = ''ACL rule ID''\<rparr>],
   needsSite = True, paginatable = False, hasBody = False,
   extraQuery = []\<rparr>,
  \<lparr>group = Some ''acl'', action = ''create'', operationId = ''createAclRule'',
   http_method = ''POST'', path = ''/v1/sites/{siteId}/acl-rules'',
   summary = ''Create a new ACL rule'',
   args = [],
   needsSite = True, paginatable = False, hasBody = True,
   extraQuery = []\<rparr>,
  \<lparr>group = Some ''acl'', action = ''update'', operationId = ''updateAclRule'',
   http_method = ''PUT'', path = ''/v1/sites/{siteId}/acl-rules/{aclRuleId}'',
   summary = ''Update an ACL rule'',
   args = [\<lparr>ArgDef.name = ''aclRuleId'', desc = ''ACL rule ID''\<rparr>],
   needsSite = True, paginatable = False, hasBody = True,
   extraQuery = []\<rparr>,
  \<lparr>group = Some ''acl'', action = ''delete'', operationId = ''deleteAclRule'',
   http_method = ''DELETE'', path = ''/v1/sites/{siteId}/acl-rules/{aclRuleId}'',
   summary = ''Delete an ACL rule'',
   args = [\<lparr>ArgDef.name = ''aclRuleId'', desc = ''ACL rule ID''\<rparr>],
   needsSite = True, paginatable = False, hasBody = False,
   extraQuery = []\<rparr>,
  \<lparr>group = Some ''acl'', action = ''ordering'', operationId = ''getAclRuleOrdering'',
   http_method = ''GET'', path = ''/v1/sites/{siteId}/acl-rules/ordering'',
   summary = ''Get ACL rule ordering'',
   args = [],
   needsSite = True, paginatable = False, hasBody = False,
   extraQuery = []\<rparr>,
  \<lparr>group = Some ''acl'', action = ''reorder'', operationId = ''updateAclRuleOrdering'',
   http_method = ''PUT'', path = ''/v1/sites/{siteId}/acl-rules/ordering'',
   summary = ''Reorder ACL rules'',
   args = [],
   needsSite = True, paginatable = False, hasBody = True,
   extraQuery = []\<rparr>,
  \<lparr>group = Some ''traffic-lists'', action = ''list'', operationId = ''getTrafficMatchingLists'',
   http_method = ''GET'', path = ''/v1/sites/{siteId}/traffic-matching-lists'',
   summary = ''List traffic matching lists'',
   args = [],
   needsSite = True, paginatable = True, hasBody = False,
   extraQuery = []\<rparr>,
  \<lparr>group = Some ''traffic-lists'', action = ''get'', operationId = ''getTrafficMatchingList'',
   http_method = ''GET'', path = ''/v1/sites/{siteId}/traffic-matching-lists/{trafficMatchingListId}'',
   summary = ''Get a traffic matching list'',
   args = [\<lparr>ArgDef.name = ''trafficMatchingListId'', desc = ''Traffic matching list ID''\<rparr>],
   needsSite = True, paginatable = False, hasBody = False,
   extraQuery = []\<rparr>,
  \<lparr>group = Some ''traffic-lists'', action = ''create'', operationId = ''createTrafficMatchingList'',
   http_method = ''POST'', path = ''/v1/sites/{siteId}/traffic-matching-lists'',
   summary = ''Create a traffic matching list'',
   args = [],
   needsSite = True, paginatable = False, hasBody = True,
   extraQuery = []\<rparr>,
  \<lparr>group = Some ''traffic-lists'', action = ''update'', operationId = ''updateTrafficMatchingList'',
   http_method = ''PUT'', path = ''/v1/sites/{siteId}/traffic-matching-lists/{trafficMatchingListId}'',
   summary = ''Update a traffic matching list'',
   args = [\<lparr>ArgDef.name = ''trafficMatchingListId'', desc = ''Traffic matching list ID''\<rparr>],
   needsSite = True, paginatable = False, hasBody = True,
   extraQuery = []\<rparr>,
  \<lparr>group = Some ''traffic-lists'', action = ''delete'', operationId = ''deleteTrafficMatchingList'',
   http_method = ''DELETE'', path = ''/v1/sites/{siteId}/traffic-matching-lists/{trafficMatchingListId}'',
   summary = ''Delete a traffic matching list'',
   args = [\<lparr>ArgDef.name = ''trafficMatchingListId'', desc = ''Traffic matching list ID''\<rparr>],
   needsSite = True, paginatable = False, hasBody = False,
   extraQuery = []\<rparr>,
  \<lparr>group = Some ''wans'', action = ''list'', operationId = ''getWansOverviewPage'',
   http_method = ''GET'', path = ''/v1/sites/{siteId}/wans'',
   summary = ''List WAN interfaces'',
   args = [],
   needsSite = True, paginatable = True, hasBody = False,
   extraQuery = []\<rparr>,
  \<lparr>group = Some ''vpn-tunnels'', action = ''list'', operationId = ''getSiteToSiteVpnTunnelPage'',
   http_method = ''GET'', path = ''/v1/sites/{siteId}/vpn/site-to-site-tunnels'',
   summary = ''List site-to-site VPN tunnels'',
   args = [],
   needsSite = True, paginatable = True, hasBody = False,
   extraQuery = []\<rparr>,
  \<lparr>group = Some ''vpn-servers'', action = ''list'', operationId = ''getVpnServerPage'',
   http_method = ''GET'', path = ''/v1/sites/{siteId}/vpn/servers'',
   summary = ''List VPN servers'',
   args = [],
   needsSite = True, paginatable = True, hasBody = False,
   extraQuery = []\<rparr>,
  \<lparr>group = Some ''radius-profiles'', action = ''list'', operationId = ''getRadiusProfileOverviewPage'',
   http_method = ''GET'', path = ''/v1/sites/{siteId}/radius/profiles'',
   summary = ''List RADIUS authentication profiles'',
   args = [],
   needsSite = True, paginatable = True, hasBody = False,
   extraQuery = []\<rparr>,
  \<lparr>group = Some ''device-tags'', action = ''list'', operationId = ''getDeviceTagPage'',
   http_method = ''GET'', path = ''/v1/sites/{siteId}/device-tags'',
   summary = ''List device tags (used for WiFi broadcast assignments)'',
   args = [],
   needsSite = True, paginatable = True, hasBody = False,
   extraQuery = []\<rparr>,
  \<lparr>group = Some ''dpi'', action = ''categories'', operationId = ''getDpiApplicationCategories'',
   http_method = ''GET'', path = ''/v1/dpi/categories'',
   summary = ''List DPI application categories'',
   args = [],
   needsSite = False, paginatable = True, hasBody = False,
   extraQuery = []\<rparr>,
  \<lparr>group = Some ''dpi'', action = ''apps'', operationId = ''getDpiApplications'',
   http_method = ''GET'', path = ''/v1/dpi/applications'',
   summary = ''List DPI-recognized applications'',
   args = [],
   needsSite = False, paginatable = True, hasBody = False,
   extraQuery = []\<rparr>,
  \<lparr>group = None, action = ''countries'', operationId = ''getCountries'',
   http_method = ''GET'', path = ''/v1/countries'',
   summary = ''List ISO country codes (for region-based config)'',
   args = [],
   needsSite = False, paginatable = True, hasBody = False,
   extraQuery = []\<rparr>]"

text \<open>\<^verbatim>\<open>COMMANDS.find((c) => c.operationId === operationId)\<close>\<close>

definition findCmd :: "string \<Rightarrow> CmdDef option" where
  "findCmd oid = find (\<lambda>c. operationId c = oid) COMMANDS"

text \<open>
  The descriptors the repository's tests pick from the catalog
  (\<^verbatim>\<open>COMMANDS.find((c) => c.operationId === ...)!\<close>), the listing operation the
  identifier resolver looks up, the one operation that declares \<^verbatim>\<open>filter\<close> as
  an extra query parameter, and the first operation of the catalog, which is not
  paginatable.
\<close>

definition devicesList :: CmdDef where
  "devicesList = the (findCmd ''getAdoptedDeviceOverviewPage'')"

definition deviceGet :: CmdDef where
  "deviceGet = the (findCmd ''getAdoptedDeviceDetails'')"

definition deleteNetwork :: CmdDef where
  "deleteNetwork = the (findCmd ''deleteNetwork'')"

definition deleteVouchers :: CmdDef where
  "deleteVouchers = the (findCmd ''deleteVouchers'')"

definition sitesList :: CmdDef where
  "sitesList = the (findCmd ''getSiteOverviewPage'')"

definition getInfo :: CmdDef where
  "getInfo = the (findCmd ''getInfo'')"


section \<open>Building a request\<close>

text \<open>
  \<^verbatim>\<open>ExecuteParams\<close>, \<^verbatim>\<open>ExecuteResult\<close> and \<^verbatim>\<open>resolveRequest\<close> of
  \<^verbatim>\<open>execute.ts\<close>.
  Optional fields are options (\<open>None\<close> is \<^verbatim>\<open>undefined\<close>); the two dictionaries of the
  parameters are only read, so they are maps (of their own properties: no name declared
  in the catalog is a property of \<^verbatim>\<open>Object.prototype\<close>). The query of a request is
  built by assignments, so it is an association list in insertion order. The page size is
  a natural number.
\<close>

record ExecuteParams =
  siteId :: "string option"
  args :: "string \<rightharpoonup> string"
  offset :: "string option"
  limit :: "string option"
  filter_expr :: "string option"
  extraQuery :: "(string \<rightharpoonup> string) option"
  body :: "json option"

record ExecuteResult =
  http_method :: string
  path :: string
  query :: "(string \<times> string) list"
  body :: "json option"

text \<open>\<^verbatim>\<open>params.siteId || "default"\<close>\<close>

definition site_or_default :: "ExecuteParams \<Rightarrow> string" where
  "site_or_default params =
     (case truthy_str (siteId params) of
        None \<Rightarrow> ''default''
      | Some s \<Rightarrow> s)"

definition substitute_site :: "CmdDef \<Rightarrow> ExecuteParams \<Rightarrow> string" where
  "substitute_site cmd params =
     (if needsSite cmd
      then js_replace (CmdDef.path cmd) ''{siteId}'' (site_or_default params)
      else CmdDef.path cmd)"

definition substitute_arg :: "ExecuteParams \<Rightarrow> string \<Rightarrow> ArgDef \<Rightarrow> string" where
  "substitute_arg params resolvedPath arg =
     (case truthy_str (ExecuteParams.args params (ArgDef.name arg)) of
        None \<Rightarrow> resolvedPath
      | Some val \<Rightarrow> js_replace resolvedPath (''{'' @ ArgDef.name arg @ ''}'') val)"

definition pagination_query :: "CmdDef \<Rightarrow> ExecuteParams \<Rightarrow> (string \<times> string) list" where
  "pagination_query cmd params =
     (if paginatable cmd then
        (let q1 = (case offset params of None \<Rightarrow> [] | Some v \<Rightarrow> AList.update ''offset'' v []);
             q2 = (case limit params of None \<Rightarrow> q1 | Some v \<Rightarrow> AList.update ''limit'' v q1)
         in case truthy_str (filter_expr params) of
              None \<Rightarrow> q2
            | Some v \<Rightarrow> AList.update ''filter'' v q2)
      else [])"

text \<open>
  \<^verbatim>\<open>params.extraQuery?.[qp.name] ?? params.extraQuery?.[camelCase(qp.name)]\<close>
\<close>

definition extra_value :: "ExecuteParams \<Rightarrow> string \<Rightarrow> string option" where
  "extra_value params qp_name =
     (case ExecuteParams.extraQuery params of
        None \<Rightarrow> None
      | Some eq \<Rightarrow>
          (case eq qp_name of
             Some v \<Rightarrow> Some v
           | None \<Rightarrow> eq (camelCase qp_name)))"

definition add_extra :: "ExecuteParams \<Rightarrow> (string \<times> string) list \<Rightarrow> QueryDef \<Rightarrow> (string \<times> string) list" where
  "add_extra params q qp =
     (case extra_value params (QueryDef.name qp) of
        None \<Rightarrow> q
      | Some val \<Rightarrow> AList.update (QueryDef.name qp) val q)"

definition resolveRequest :: "CmdDef \<Rightarrow> ExecuteParams \<Rightarrow> ExecuteResult" where
  "resolveRequest cmd params =
     \<lparr>http_method = CmdDef.http_method cmd,
      path = foldl (substitute_arg params) (substitute_site cmd params) (CmdDef.args cmd),
      query = foldl (add_extra params) (pagination_query cmd params) (CmdDef.extraQuery cmd),
      body = (if hasBody cmd then ExecuteParams.body params else None)\<rparr>"

section \<open>Executing and paginating\<close>

text \<open>
  \<^verbatim>\<open>executeCommand\<close> and \<^verbatim>\<open>executeAllPages\<close> of \<^verbatim>\<open>execute.ts\<close>.
  The client is the transport: given a request and its own state (the network, a mock's
  call counter) it answers with a parsed response or fails, and moves to a new state.
\<close>

type_synonym 's UnifiClient = "ExecuteResult \<Rightarrow> 's \<Rightarrow> (error + json) \<times> 's"

definition executeCommand :: "CmdDef \<Rightarrow> ExecuteParams \<Rightarrow> 's UnifiClient \<Rightarrow> 's \<Rightarrow> (error + json) \<times> 's" where
  "executeCommand cmd params client s = client (resolveRequest cmd params) s"

definition pageParams :: "ExecuteParams \<Rightarrow> nat \<Rightarrow> nat \<Rightarrow> ExecuteParams" where
  "pageParams params off pageSize =
     params\<lparr>offset := Some (js_String off), limit := Some (js_String pageSize)\<rparr>"

text \<open>
  The \<^verbatim>\<open>while (true)\<close> loop of \<^verbatim>\<open>executeAllPages\<close>. It has no bound of its own (a
  transport that keeps answering full pages keeps it running), so the model counts
  iterations down from a fuel: \<open>None\<close> means the loop has not returned within it.
\<close>

fun pages_loop ::
  "nat \<Rightarrow> CmdDef \<Rightarrow> ExecuteParams \<Rightarrow> 's UnifiClient \<Rightarrow> nat \<Rightarrow> json list \<Rightarrow> nat \<Rightarrow> 's
     \<Rightarrow> ((error + json) \<times> 's) option" where
  "pages_loop 0 cmd params client pageSize allData off s = None"
| "pages_loop (Suc fuel) cmd params client pageSize allData off s =
     (case executeCommand cmd (pageParams params off pageSize) client s of
        (Inl e, s') \<Rightarrow> Some (Inl e, s')
      | (Inr result, s') \<Rightarrow>
          (case get_prop result ''data'' of
             Inl e \<Rightarrow> Some (Inl e, s')
           | Inr (Some (JArr data)) \<Rightarrow>
               (let allData' = allData @ data;
                    totalCount = (case get_prop result ''totalCount'' of
                                    Inr (Some (JNum x)) \<Rightarrow> x
                                  | _ \<Rightarrow> Finite (of_nat (length allData')))
                in if length_ge (length allData') totalCount \<or> length data < pageSize
                   then Some (Inr (JObj [(''data'', JArr allData'), (''totalCount'', JNum totalCount)]), s')
                   else pages_loop fuel cmd params client pageSize allData' (off + length data) s')
           | Inr _ \<Rightarrow> Some (Inr result, s')))"

definition executeAllPages ::
  "nat \<Rightarrow> CmdDef \<Rightarrow> ExecuteParams \<Rightarrow> 's UnifiClient \<Rightarrow> nat \<Rightarrow> 's \<Rightarrow> ((error + json) \<times> 's) option" where
  "executeAllPages fuel cmd params client pageSize s =
     (if \<not> paginatable cmd then Some (executeCommand cmd params client s)
      else pages_loop fuel cmd params client pageSize [] 0 s)"


section \<open>Observing the transport\<close>

text \<open>
  \<open>recording client\<close> behaves as \<open>client\<close> and also appends every request, with the
  answer it got, to a log kept in its state: the log is the sequence of transport
  invocations. \<open>mockClient pages\<close> is the test double of the repository's tests: the
  \<open>i\<close>-th call answers \<^verbatim>\<open>pages[i]\<close>, which is \<^verbatim>\<open>undefined\<close> past the end.
\<close>

type_synonym call_log = "(ExecuteResult \<times> (error + json)) list"

definition recording :: "'s UnifiClient \<Rightarrow> ('s \<times> call_log) UnifiClient" where
  "recording client req st =
     (case st of (s, calls) \<Rightarrow>
        (case client req s of (r, s') \<Rightarrow> (r, (s', calls @ [(req, r)]))))"

definition mockClient :: "json list \<Rightarrow> nat UnifiClient" where
  "mockClient pages req callIndex =
     (Inr (if callIndex < length pages then pages ! callIndex else JNull), Suc callIndex)"

text \<open>What a logged answer contributes to the merged list: the items of a page, nothing otherwise.\<close>

fun page_of :: "error + json \<Rightarrow> json list option" where
  "page_of (Inl e) = None"
| "page_of (Inr result) =
     (case get_prop result ''data'' of
        Inr (Some (JArr data)) \<Rightarrow> Some data
      | _ \<Rightarrow> None)"

definition items_of :: "error + json \<Rightarrow> json list" where
  "items_of r = (case page_of r of Some data \<Rightarrow> data | None \<Rightarrow> [])"

text \<open>The offsets of a run: the first is given, each next one adds the size of the page just read.\<close>

fun offsets_from :: "nat \<Rightarrow> (error + json) list \<Rightarrow> nat list" where
  "offsets_from off [] = []"
| "offsets_from off (r # rs) = off # offsets_from (off + length (items_of r)) rs"

text \<open>The total reported with a page: the response's \<open>totalCount\<close> if it is a number, else the merged length.\<close>

fun total_of :: "error + json \<Rightarrow> nat \<Rightarrow> jsnum" where
  "total_of (Inl e) n = Finite (of_nat n)"
| "total_of (Inr result) n =
     (case get_prop result ''totalCount'' of
        Inr (Some (JNum x)) \<Rightarrow> x
      | _ \<Rightarrow> Finite (of_nat n))"

section \<open>Resolving a site identifier\<close>

text \<open>
  \<^verbatim>\<open>resolveSiteId\<close> of the tool server (\<^verbatim>\<open>mcp.ts\<close>), a closure over the session's
  cache \<^verbatim>\<open>resolvedDefaultSiteId\<close>.
\<close>

text \<open>\<^verbatim>\<open>/^[0-9a-f]{8}-/.test(siteId)\<close>\<close>

definition is_hex_digit :: "char \<Rightarrow> bool" where
  "is_hex_digit c =
     ((48 \<le> (of_char c :: nat) \<and> (of_char c :: nat) \<le> 57) \<or>
      (97 \<le> (of_char c :: nat) \<and> (of_char c :: nat) \<le> 102))"

definition looks_like_uuid :: "string \<Rightarrow> bool" where
  "looks_like_uuid sid =
     (9 \<le> length sid \<and> list_all is_hex_digit (take 8 sid) \<and> sid ! 8 = CHR ''-'')"

text \<open>\<^verbatim>\<open>(s) => s.internalReference === siteId || s.id === siteId\<close>\<close>

definition site_matches :: "string \<Rightarrow> json \<Rightarrow> error + bool" where
  "site_matches sid s =
     (case get_prop s ''internalReference'' of
        Inl e \<Rightarrow> Inl e
      | Inr r \<Rightarrow>
          if r = Some (JStr sid) then Inr True
          else (case get_prop s ''id'' of
                  Inl e \<Rightarrow> Inl e
                | Inr i \<Rightarrow> Inr (i = Some (JStr sid))))"

text \<open>\<^verbatim>\<open>Array.prototype.find\<close> with a callback that may raise.\<close>

fun js_find :: "(json \<Rightarrow> error + bool) \<Rightarrow> json list \<Rightarrow> error + json option" where
  "js_find p [] = Inr None"
| "js_find p (x # xs) =
     (case p x of
        Inl e \<Rightarrow> Inl e
      | Inr True \<Rightarrow> Inr (Some x)
      | Inr False \<Rightarrow> js_find p xs)"

text \<open>\<^verbatim>\<open>resolvedDefaultSiteId ?? siteId\<close>\<close>

definition cached_or :: "json \<Rightarrow> string \<Rightarrow> json" where
  "cached_or cache sid = (if cache = JNull then JStr sid else cache)"

text \<open>
  \<open>emptyParams\<close> is \<^verbatim>\<open>{ args: {} }\<close>, the parameters of the listing fetch (and of the
  repository's pagination tests). The state of a server session is the cache \<^verbatim>\<open>resolvedDefaultSiteId\<close> (\<open>JNull\<close> at the
  start) paired with the state of the client. At run time the cache holds whatever the
  \<^verbatim>\<open>id\<close> property of the matching entry was.
\<close>

definition emptyParams :: ExecuteParams where
  "emptyParams = \<lparr>siteId = None, args = Map.empty, offset = None, limit = None,
                   filter_expr = None, extraQuery = None, body = None\<rparr>"

definition resolveSiteId ::
  "nat \<Rightarrow> 's UnifiClient \<Rightarrow> string \<Rightarrow> json \<times> 's \<Rightarrow> ((error + json) \<times> (json \<times> 's)) option" where
  "resolveSiteId fuel client sid st =
     (case st of (cache, s) \<Rightarrow>
        if looks_like_uuid sid then Some (Inr (JStr sid), (cache, s))
        else if \<not> truthy cache then
          (case findCmd ''getSiteOverviewPage'' of
             None \<Rightarrow> Some (Inr (cached_or cache sid), (cache, s))
           | Some sitesCmd \<Rightarrow>
               (case executeAllPages fuel sitesCmd emptyParams client 200 s of
                  None \<Rightarrow> None
                | Some (Inl e, s') \<Rightarrow> Some (Inl e, (cache, s'))
                | Some (Inr result, s') \<Rightarrow>
                    (case get_prop result ''data'' of
                       Inl e \<Rightarrow> Some (Inl e, (cache, s'))
                     | Inr None \<Rightarrow> Some (Inr (cached_or cache sid), (cache, s'))
                     | Inr (Some JNull) \<Rightarrow> Some (Inr (cached_or cache sid), (cache, s'))
                     | Inr (Some (JArr entries)) \<Rightarrow>
                         (case js_find (site_matches sid) entries of
                            Inl e \<Rightarrow> Some (Inl e, (cache, s'))
                          | Inr None \<Rightarrow> Some (Inr (cached_or cache sid), (cache, s'))
                          | Inr (Some match) \<Rightarrow>
                              (case get_prop match ''id'' of
                                 Inl e \<Rightarrow> Some (Inl e, (cache, s'))
                               | Inr None \<Rightarrow> Some (Inr JNull, (JNull, s'))
                               | Inr (Some i) \<Rightarrow> Some (Inr i, (i, s'))))
                     | Inr (Some other) \<Rightarrow> Some (Inl TypeError, (cache, s')))))
        else Some (Inr (cached_or cache sid), (cache, s)))"

section \<open>Unfolding schemas\<close>

text \<open>
  \<^verbatim>\<open>resolveRef\<close> and \<^verbatim>\<open>toJsonSchema\<close> of \<^verbatim>\<open>schema.ts\<close>.
  A node of the schema document, with the optional fields of \<^verbatim>\<open>SchemaRef\<close>; the
  properties of an object are listed in the order \<^verbatim>\<open>Object.entries\<close> yields them, each
  name once. Of the document, unfolding reads only \<^verbatim>\<open>components.schemas\<close>. The
  depth bound is an integer; the set of references seen on the way is passed by value,
  as the code hands a copy of it to every branch.
\<close>

datatype SchemaRef = SchemaRef
  (s_ref: "string option")
  (s_type: "string option")
  (s_enum: "string list option")
  (s_properties: "(string \<times> SchemaRef) list option")
  (s_required: "string list option")
  (s_items: "SchemaRef option")
  (s_description: "string option")
  (s_oneOf: "SchemaRef list option")
  (s_anyOf: "SchemaRef list option")
  (s_allOf: "SchemaRef list option")

record OpenAPISpec =
  info_title :: string
  info_version :: string
  schemas :: "string \<rightharpoonup> SchemaRef"

definition resolveRef :: "OpenAPISpec \<Rightarrow> string \<Rightarrow> SchemaRef option" where
  "resolveRef spec ref = schemas spec (js_replace ref ''#/components/schemas/'' [])"

definition placeholder :: json where
  "placeholder = JObj [(''type'', JStr ''object'')]"

text \<open>\<^verbatim>\<open>if (schemaOrRef.description) result.description = schemaOrRef.description\<close>\<close>

definition with_description :: "SchemaRef \<Rightarrow> (string \<times> json) list \<Rightarrow> (string \<times> json) list" where
  "with_description node result =
     (case truthy_str (s_description node) of
        None \<Rightarrow> result
      | Some d \<Rightarrow> AList.update ''description'' (JStr d) result)"

function toJsonSchema :: "OpenAPISpec \<Rightarrow> SchemaRef \<Rightarrow> int \<Rightarrow> string set \<Rightarrow> json" where
  "toJsonSchema spec schemaOrRef maxDepth seen =
     (if maxDepth \<le> 0 then placeholder
      else (case truthy_str (s_ref schemaOrRef) of
        Some ref \<Rightarrow>
          if ref \<in> seen then placeholder
          else (case resolveRef spec ref of
                  None \<Rightarrow> placeholder
                | Some resolved \<Rightarrow> toJsonSchema spec resolved (maxDepth - 1) (insert ref seen))
      | None \<Rightarrow> (case s_oneOf schemaOrRef of
        Some variants \<Rightarrow>
          JObj [(''oneOf'', JArr (map (\<lambda>v. toJsonSchema spec v (maxDepth - 1) seen) variants))]
      | None \<Rightarrow> (case s_anyOf schemaOrRef of
        Some variants \<Rightarrow>
          JObj [(''anyOf'', JArr (map (\<lambda>v. toJsonSchema spec v (maxDepth - 1) seen) variants))]
      | None \<Rightarrow> (case s_allOf schemaOrRef of
        Some variants \<Rightarrow>
          JObj [(''allOf'', JArr (map (\<lambda>v. toJsonSchema spec v (maxDepth - 1) seen) variants))]
      | None \<Rightarrow>
          if s_type schemaOrRef = Some ''array'' then
            (case s_items schemaOrRef of
               None \<Rightarrow> JObj [(''type'', JStr ''array'')]
             | Some items \<Rightarrow>
                 JObj [(''type'', JStr ''array''),
                       (''items'', toJsonSchema spec items (maxDepth - 1) seen)])
          else if s_type schemaOrRef = Some ''object'' \<or> s_properties schemaOrRef \<noteq> None then
            (let r1 = (case s_properties schemaOrRef of
                         None \<Rightarrow> [(''type'', JStr ''object'')]
                       | Some props \<Rightarrow>
                           [(''type'', JStr ''object''),
                            (''properties'',
                               JObj (map (\<lambda>(name, prop). (name, toJsonSchema spec prop (maxDepth - 1) seen)) props))]);
                 r2 = (case s_required schemaOrRef of
                         None \<Rightarrow> r1
                       | Some req \<Rightarrow> AList.update ''required'' (JArr (map JStr req)) r1)
             in JObj (with_description schemaOrRef r2))
          else (case s_enum schemaOrRef of
            Some vals \<Rightarrow>
              JObj (with_description schemaOrRef
                [(''type'', JStr (case s_type schemaOrRef of None \<Rightarrow> ''string'' | Some t \<Rightarrow> t)),
                 (''enum'', JArr (map JStr vals))])
          | None \<Rightarrow>
              JObj (with_description schemaOrRef
                [(''type'', JStr (case s_type schemaOrRef of None \<Rightarrow> ''object'' | Some t \<Rightarrow> t))])))))))"
  by pat_completeness auto
termination
  by (relation "measure (\<lambda>(spec, schemaOrRef, maxDepth, seen). nat maxDepth)") auto


text \<open>
  A schema document with reference cycles: \<open>Node\<close> refers to itself, \<open>A\<close> and \<open>B\<close>
  refer to each other; \<open>refNode r\<close> is the node \<^verbatim>\<open>{ "$ref": r }\<close>.
\<close>

definition refNode :: "string \<Rightarrow> SchemaRef" where
  "refNode r = SchemaRef (Some r) None None None None None None None None None"

definition cyclicSpec :: OpenAPISpec where
  "cyclicSpec = \<lparr>info_title = ''cyclic'', info_version = ''1'',
     schemas =
       [''Node'' \<mapsto> SchemaRef None (Some ''object'') None
          (Some [(''value'', SchemaRef None (Some ''string'') None None None None None None None None),
                 (''next'', refNode ''#/components/schemas/Node'')])
          (Some [''value'']) None None None None None,
        ''A'' \<mapsto> SchemaRef None (Some ''array'') None None None
          (Some (refNode ''#/components/schemas/B'')) None None None None,
        ''B'' \<mapsto> SchemaRef None None None None None None None
          (Some [refNode ''#/components/schemas/A'',
                 SchemaRef None (Some ''string'') (Some [''x'', ''y'']) None None None None None None None])
          None None]\<rparr>"


section \<open>Auxiliary notions for the proofs\<close>

text \<open>
  What one iteration of the pagination loop decides from the transport's answer: return
  a result, or go on with a longer list and a larger offset.
\<close>

datatype page_step = Return "error + json" | Continue "json list" nat

definition page_step :: "nat \<Rightarrow> json list \<Rightarrow> nat \<Rightarrow> error + json \<Rightarrow> page_step" where
  "page_step pageSize allData off r =
     (case r of
        Inl e \<Rightarrow> Return (Inl e)
      | Inr result \<Rightarrow>
          (case get_prop result ''data'' of
             Inl e \<Rightarrow> Return (Inl e)
           | Inr (Some (JArr data)) \<Rightarrow>
               (let allData' = allData @ data;
                    totalCount = total_of r (length allData')
                in if length_ge (length allData') totalCount \<or> length data < pageSize
                   then Return (Inr (JObj [(''data'', JArr allData'), (''totalCount'', JNum totalCount)]))
                   else Continue allData' (off + length data))
           | Inr _ \<Rightarrow> Return (Inr result)))"

text \<open>
  Replacing the first occurrence of a placeholder by a value taken literally: what the
  path substitution is meant to do.
\<close>

definition substitute_literal :: "string \<Rightarrow> string \<Rightarrow> string \<Rightarrow> string" where
  "substitute_literal s pat v =
     (case split_first pat s of None \<Rightarrow> s | Some (pre, post) \<Rightarrow> pre @ v @ post)"

text \<open>The item \<^verbatim>\<open>{ id: n }\<close> of the repository's pagination tests.\<close>

definition item :: "rat \<Rightarrow> json" where
  "item n = JObj [(''id'', JNum (Finite n))]"

text \<open>
  The entries that \<^verbatim>\<open>result.data?.find(...)\<close> searches in a listing of the type the
  resolver declares, \<^verbatim>\<open>{ data?: Array<...> }\<close>: those of the list, and none when
  \<^verbatim>\<open>data\<close> is absent (or \<^verbatim>\<open>null\<close>).
\<close>

definition listing_entries :: "json \<Rightarrow> json list option" where
  "listing_entries result =
     (case get_prop result ''data'' of
        Inr None \<Rightarrow> Some []
      | Inr (Some JNull) \<Rightarrow> Some []
      | Inr (Some (JArr entries)) \<Rightarrow> Some entries
      | _ \<Rightarrow> None)"

section \<open>Catalog entries\<close>

lemma devicesList_eq:
  "devicesList = \<lparr>group = Some ''devices'', action = ''list'',
     operationId = ''getAdoptedDeviceOverviewPage'',
     http_method = ''GET'', path = ''/v1/sites/{siteId}/devices'',
     summary = ''List adopted devices on a site'', args = [],
     needsSite = True, paginatable = True, hasBody = False, extraQuery = []\<rparr>"
  by (simp add: devicesList_def findCmd_def COMMANDS_def)

lemma deviceGet_eq:
  "deviceGet = \<lparr>group = Some ''devices'', action = ''get'',
     operationId = ''getAdoptedDeviceDetails'',
     http_method = ''GET'', path = ''/v1/sites/{siteId}/devices/{deviceId}'',
     summary = ''Get detailed info for an adopted device'',
     args = [\<lparr>ArgDef.name = ''deviceId'', desc = ''Device ID''\<rparr>],
     needsSite = True, paginatable = False, hasBody = False, extraQuery = []\<rparr>"
  by (simp add: deviceGet_def findCmd_def COMMANDS_def)

lemma deleteNetwork_eq:
  "deleteNetwork = \<lparr>group = Some ''networks'', action = ''delete'',
     operationId = ''deleteNetwork'',
     http_method = ''DELETE'', path = ''/v1/sites/{siteId}/networks/{networkId}'',
     summary = ''Delete a network'',
     args = [\<lparr>ArgDef.name = ''networkId'', desc = ''Network ID''\<rparr>],
     needsSite = True, paginatable = False, hasBody = False,
     extraQuery = [\<lparr>QueryDef.name = ''force'', required = False, desc = ''Force deletion''\<rparr>]\<rparr>"
  by (simp add: deleteNetwork_def findCmd_def COMMANDS_def)

lemma deleteVouchers_eq:
  "deleteVouchers = \<lparr>group = Some ''hotspot'', action = ''delete-all'',
     operationId = ''deleteVouchers'',
     http_method = ''DELETE'', path = ''/v1/sites/{siteId}/hotspot/vouchers'',
     summary = ''Delete vouchers matching a filter'', args = [],
     needsSite = True, paginatable = False, hasBody = False,
     extraQuery = [\<lparr>QueryDef.name = ''filter'', required = True, desc = ''Filter expression''\<rparr>]\<rparr>"
  by (simp add: deleteVouchers_def findCmd_def COMMANDS_def)

lemma getInfo_eq:
  "getInfo = \<lparr>group = None, action = ''info'', operationId = ''getInfo'',
     http_method = ''GET'', path = ''/v1/info'',
     summary = ''Show UniFi Network application info'', args = [],
     needsSite = False, paginatable = False, hasBody = False, extraQuery = []\<rparr>"
  by (simp add: getInfo_def findCmd_def COMMANDS_def)

section \<open>Request building: the path\<close>

lemma split_first_sound:
  "split_first pat s = Some (pre, post) \<Longrightarrow> s = pre @ pat @ post"
proof (induction s arbitrary: pre)
  case Nil
  then show ?case by (simp split: if_splits)
next
  case (Cons c cs)
  show ?case
  proof (cases "prefix pat (c # cs)")
    case True
    with Cons.prems have "pre = []" "post = drop (length pat) (c # cs)" by simp_all
    moreover from True obtain zs where "c # cs = pat @ zs" by (auto simp: prefix_def)
    ultimately show ?thesis by simp
  next
    case False
    with Cons.prems obtain pre' where "split_first pat cs = Some (pre', post)" "pre = c # pre'"
      by auto
    with Cons.IH show ?thesis by simp
  qed
qed

lemma GetSubstitution_literal:
  "CHR ''$'' \<notin> set rep \<Longrightarrow> GetSubstitution matched pre post rep = rep"
  by (induction matched pre post rep rule: GetSubstitution.induct) auto

text \<open>
  A replacement text without a dollar sign is inserted as it is, in place of the first
  occurrence of the pattern.
\<close>

lemma js_replace_literal:
  assumes "CHR ''$'' \<notin> set rep" and "split_first pat s = Some (pre, post)"
  shows "js_replace s pat rep = pre @ rep @ post"
  using assms by (simp add: js_replace_def GetSubstitution_literal)

lemma js_replace_absent: "split_first pat s = None \<Longrightarrow> js_replace s pat rep = s"
  by (simp add: js_replace_def)

text \<open>
  The two path examples of the specification: the site placeholder defaults to
  \<^verbatim>\<open>default\<close>, and \<^verbatim>\<open>siteId = "s1"\<close>, \<^verbatim>\<open>deviceId = "dev42"\<close> give
  \<^verbatim>\<open>/sites/s1/devices/dev42\<close> under the catalog's prefix.
\<close>

lemma resolveRequest_default_site:
  "path (resolveRequest devicesList emptyParams) = ''/v1/sites/default/devices''"
  by (simp add: devicesList_eq emptyParams_def resolveRequest_def substitute_site_def
      site_or_default_def truthy_str_def js_replace_def)

lemma resolveRequest_positional:
  "path (resolveRequest deviceGet
     (emptyParams\<lparr>siteId := Some ''s1'', args := [''deviceId'' \<mapsto> ''dev42'']\<rparr>))
   = ''/v1/sites/s1/devices/dev42''"
  by (simp add: deviceGet_eq emptyParams_def resolveRequest_def substitute_site_def
      substitute_arg_def site_or_default_def truthy_str_def js_replace_def)

lemma substitute_arg_falsy:
  "truthy_str (ExecuteParams.args params (ArgDef.name arg)) = None
   \<Longrightarrow> substitute_arg params resolvedPath arg = resolvedPath"
  by (simp add: substitute_arg_def)

lemma js_replace_substitute_literal:
  "CHR ''$'' \<notin> set v \<Longrightarrow> js_replace s pat v = substitute_literal s pat v"
  by (simp add: js_replace_def substitute_literal_def GetSubstitution_literal split: option.splits)

lemma foldl_substitute_arg_literal:
  assumes "\<forall>arg \<in> set as. \<forall>v. truthy_str (ExecuteParams.args params (ArgDef.name arg)) = Some v
             \<longrightarrow> CHR ''$'' \<notin> set v"
  shows "foldl (substitute_arg params) p as =
         foldl (\<lambda>p arg. case truthy_str (ExecuteParams.args params (ArgDef.name arg)) of
                            None \<Rightarrow> p
                          | Some v \<Rightarrow> substitute_literal p (''{'' @ ArgDef.name arg @ ''}'') v) p as"
  using assms
proof (induction as arbitrary: p)
  case Nil
  then show ?case by simp
next
  case (Cons a as)
  have "substitute_arg params p a =
      (case truthy_str (ExecuteParams.args params (ArgDef.name a)) of
         None \<Rightarrow> p
       | Some v \<Rightarrow> substitute_literal p (''{'' @ ArgDef.name a @ ''}'') v)"
    using Cons.prems
    by (auto simp: substitute_arg_def js_replace_substitute_literal split: option.splits)
  with Cons show ?case by simp
qed

text \<open>
  When neither the site id nor a supplied positional value holds a dollar sign, the
  resolved path is the template with the site placeholder replaced by the site id (or
  \<^verbatim>\<open>default\<close>) and then, in the catalog's order, each positional placeholder replaced
  by its value, a falsy value leaving the path as it is.
\<close>

lemma resolveRequest_path_literal:
  assumes "CHR ''$'' \<notin> set (site_or_default params)"
    and "\<forall>arg \<in> set (CmdDef.args cmd). \<forall>v.
           truthy_str (ExecuteParams.args params (ArgDef.name arg)) = Some v \<longrightarrow> CHR ''$'' \<notin> set v"
  shows "path (resolveRequest cmd params) =
         foldl (\<lambda>p arg. case truthy_str (ExecuteParams.args params (ArgDef.name arg)) of
                            None \<Rightarrow> p
                          | Some v \<Rightarrow> substitute_literal p (''{'' @ ArgDef.name arg @ ''}'') v)
           (if needsSite cmd
            then substitute_literal (CmdDef.path cmd) ''{siteId}'' (site_or_default params)
            else CmdDef.path cmd)
           (CmdDef.args cmd)"
  using assms
  by (simp add: resolveRequest_def substitute_site_def js_replace_substitute_literal
      foldl_substitute_arg_literal)

text \<open>
  C3. The claim says that the site placeholder is replaced by the site id and each
  positional placeholder by its supplied value. The code substitutes with
  \<^verbatim>\<open>String.prototype.replace\<close>, which reads the value as a replacement template: for
  the site id \<^verbatim>\<open>$&\<close> the devices listing keeps its placeholder, the path stays
  \<^verbatim>\<open>/v1/sites/{siteId}/devices\<close> where the claim gives \<^verbatim>\<open>/v1/sites/$&/devices\<close>, and
  for the device id \<^verbatim>\<open>$$\<close> the path ends in a single dollar sign.
\<close>

theorem resolveRequest_dollar_value:
  "path (resolveRequest devicesList (emptyParams\<lparr>siteId := Some ''$&''\<rparr>))
     = ''/v1/sites/{siteId}/devices'' \<and>
   path (resolveRequest deviceGet
     (emptyParams\<lparr>siteId := Some ''s1'', args := [''deviceId'' \<mapsto> ''$$'']\<rparr>))
     = ''/v1/sites/s1/devices/$''"
  by (simp add: devicesList_eq deviceGet_eq emptyParams_def resolveRequest_def
      substitute_site_def substitute_arg_def site_or_default_def truthy_str_def js_replace_def)

section \<open>Request building: the query\<close>

lemma map_of_add_extra:
  "map_of (add_extra params q qp) k =
     (if QueryDef.name qp = k \<and> extra_value params k \<noteq> None then extra_value params k
      else map_of q k)"
  by (auto simp: add_extra_def update_conv' split: option.splits)

lemma map_of_foldl_add_extra:
  "map_of (foldl (add_extra params) q qps) k =
     (if k \<in> QueryDef.name ` set qps \<and> extra_value params k \<noteq> None then extra_value params k
      else map_of q k)"
proof (induction qps arbitrary: q)
  case Nil
  then show ?case by simp
next
  case (Cons qp qps)
  then show ?case by (auto simp: map_of_add_extra)
qed

lemma map_of_pagination_query:
  "map_of (pagination_query cmd params) k =
     (if \<not> paginatable cmd then None
      else if k = ''filter'' then truthy_str (filter_expr params)
      else if k = ''limit'' then limit params
      else if k = ''offset'' then offset params
      else None)"
  by (auto simp: pagination_query_def Let_def update_conv' split: option.splits)

lemma query_resolveRequest:
  "map_of (query (resolveRequest cmd params)) k =
     (if k \<in> QueryDef.name ` set (CmdDef.extraQuery cmd) \<and> extra_value params k \<noteq> None
      then extra_value params k
      else map_of (pagination_query cmd params) k)"
  by (simp add: resolveRequest_def map_of_foldl_add_extra)

lemma resolveRequest_not_paginatable:
  assumes "\<not> paginatable cmd"
  shows "resolveRequest cmd (params\<lparr>offset := x, limit := y, filter_expr := z\<rparr>)
       = resolveRequest cmd params"
proof -
  have "substitute_arg (params\<lparr>offset := x, limit := y, filter_expr := z\<rparr>)
      = substitute_arg params"
    by (intro ext) (simp add: substitute_arg_def)
  moreover have "add_extra (params\<lparr>offset := x, limit := y, filter_expr := z\<rparr>)
      = add_extra params"
    by (intro ext) (simp add: add_extra_def extra_value_def)
  ultimately show ?thesis
    using assms
    by (simp add: resolveRequest_def pagination_query_def substitute_site_def site_or_default_def)
qed

lemma camelCase_dry_run: "camelCase ''dry-run'' = ''dryRun''"
  by code_simp

text \<open>
  C6. The caller's pagination parameters \<^verbatim>\<open>offset\<close>, \<^verbatim>\<open>limit\<close> and \<^verbatim>\<open>filter\<close> are
  emitted only when the descriptor is paginatable and the value is supplied: for a
  descriptor that is not paginatable the request is the same whatever the three hold, and
  a query entry of one of these names is either the supplied parameter of a paginatable
  descriptor (the filter non-empty) or the value of an extra query parameter that the
  descriptor declares under that name. Each declared extra query parameter is emitted
  under its declared name when \<^verbatim>\<open>params.extraQuery\<close> holds a value under the declared
  name or under its camel-cased alias (the value under the declared name first).
\<close>

theorem resolveRequest_query_emitted:
  "(\<not> paginatable cmd \<longrightarrow>
      resolveRequest cmd (params\<lparr>offset := x, limit := y, filter_expr := z\<rparr>)
        = resolveRequest cmd params) \<and>
   (\<forall>v. map_of (query (resolveRequest cmd params)) ''offset'' = Some v \<longrightarrow>
        (paginatable cmd \<and> offset params = Some v) \<or>
        (''offset'' \<in> QueryDef.name ` set (CmdDef.extraQuery cmd) \<and>
         extra_value params ''offset'' = Some v)) \<and>
   (\<forall>v. map_of (query (resolveRequest cmd params)) ''limit'' = Some v \<longrightarrow>
        (paginatable cmd \<and> limit params = Some v) \<or>
        (''limit'' \<in> QueryDef.name ` set (CmdDef.extraQuery cmd) \<and>
         extra_value params ''limit'' = Some v)) \<and>
   (\<forall>v. map_of (query (resolveRequest cmd params)) ''filter'' = Some v \<longrightarrow>
        (paginatable cmd \<and> filter_expr params = Some v \<and> v \<noteq> []) \<or>
        (''filter'' \<in> QueryDef.name ` set (CmdDef.extraQuery cmd) \<and>
         extra_value params ''filter'' = Some v)) \<and>
   (\<forall>qp eq v. qp \<in> set (CmdDef.extraQuery cmd) \<and>
        ExecuteParams.extraQuery params = Some eq \<and>
        (eq (QueryDef.name qp) = Some v \<or>
         (eq (QueryDef.name qp) = None \<and> eq (camelCase (QueryDef.name qp)) = Some v)) \<longrightarrow>
        map_of (query (resolveRequest cmd params)) (QueryDef.name qp) = Some v)"
proof (intro conjI allI impI)
  assume "\<not> paginatable cmd"
  then show "resolveRequest cmd (params\<lparr>offset := x, limit := y, filter_expr := z\<rparr>)
        = resolveRequest cmd params"
    by (rule resolveRequest_not_paginatable)
next
  fix v assume "map_of (query (resolveRequest cmd params)) ''offset'' = Some v"
  then show "(paginatable cmd \<and> offset params = Some v) \<or>
        (''offset'' \<in> QueryDef.name ` set (CmdDef.extraQuery cmd) \<and>
         extra_value params ''offset'' = Some v)"
    by (auto simp: query_resolveRequest map_of_pagination_query split: if_splits)
next
  fix v assume "map_of (query (resolveRequest cmd params)) ''limit'' = Some v"
  then show "(paginatable cmd \<and> limit params = Some v) \<or>
        (''limit'' \<in> QueryDef.name ` set (CmdDef.extraQuery cmd) \<and>
         extra_value params ''limit'' = Some v)"
    by (auto simp: query_resolveRequest map_of_pagination_query split: if_splits)
next
  fix v assume "map_of (query (resolveRequest cmd params)) ''filter'' = Some v"
  then show "(paginatable cmd \<and> filter_expr params = Some v \<and> v \<noteq> []) \<or>
        (''filter'' \<in> QueryDef.name ` set (CmdDef.extraQuery cmd) \<and>
         extra_value params ''filter'' = Some v)"
    by (auto simp: query_resolveRequest map_of_pagination_query truthy_str_def
        split: if_splits option.splits)
next
  fix qp eq v
  assume a: "qp \<in> set (CmdDef.extraQuery cmd) \<and>
        ExecuteParams.extraQuery params = Some eq \<and>
        (eq (QueryDef.name qp) = Some v \<or>
         (eq (QueryDef.name qp) = None \<and> eq (camelCase (QueryDef.name qp)) = Some v))"
  then have "extra_value params (QueryDef.name qp) = Some v"
    by (auto simp: extra_value_def)
  with a show "map_of (query (resolveRequest cmd params)) (QueryDef.name qp) = Some v"
    by (auto simp: query_resolveRequest)
qed

text \<open>
  The instances: the paginatable devices listing emits the three supplied parameters; the
  catalog's \<^verbatim>\<open>deleteVouchers\<close>, which is not paginatable, drops all three when supplied
  and emits only the \<^verbatim>\<open>filter\<close> it declares as an extra query parameter; \<^verbatim>\<open>force\<close> of
  \<^verbatim>\<open>deleteNetwork\<close> is emitted from the value under its name, and a parameter declared
  as \<^verbatim>\<open>dry-run\<close> from the value under its alias \<^verbatim>\<open>dryRun\<close>.
\<close>

theorem resolveRequest_query_emitted_witness:
  "(paginatable devicesList \<and>
    query (resolveRequest devicesList
        (emptyParams\<lparr>offset := Some ''10'', limit := Some ''50'',
                      filter_expr := Some ''name eq foo''\<rparr>))
      = [(''offset'', ''10''), (''limit'', ''50''), (''filter'', ''name eq foo'')]) \<and>
   (\<not> paginatable deleteVouchers \<and>
    query (resolveRequest deleteVouchers
        (emptyParams\<lparr>siteId := Some ''s1'', offset := Some ''10'', limit := Some ''50'',
                      filter_expr := Some ''name eq foo''\<rparr>)) = [] \<and>
    query (resolveRequest deleteVouchers
        (emptyParams\<lparr>siteId := Some ''s1'', extraQuery := Some [''filter'' \<mapsto> ''name eq foo''],
                      offset := Some ''10'', limit := Some ''50'', filter_expr := Some ''x''\<rparr>))
      = [(''filter'', ''name eq foo'')]) \<and>
   (\<lparr>QueryDef.name = ''force'', required = False, desc = ''Force deletion''\<rparr>
      \<in> set (CmdDef.extraQuery deleteNetwork) \<and>
    map_of (query (resolveRequest deleteNetwork
        (emptyParams\<lparr>siteId := Some ''s1'', args := [''networkId'' \<mapsto> ''n1''],
                      extraQuery := Some [''force'' \<mapsto> ''true'']\<rparr>))) ''force''
      = Some ''true'') \<and>
   map_of (query (resolveRequest
        (deleteNetwork\<lparr>CmdDef.extraQuery :=
           [\<lparr>QueryDef.name = ''dry-run'', required = False, desc = ''Dry run''\<rparr>]\<rparr>)
        (emptyParams\<lparr>siteId := Some ''s1'', args := [''networkId'' \<mapsto> ''n1''],
                      extraQuery := Some [''dryRun'' \<mapsto> ''true'']\<rparr>))) ''dry-run''
      = Some ''true''"
proof -
  let ?P1 = "emptyParams\<lparr>offset := Some ''10'', limit := Some ''50'',
                filter_expr := Some ''name eq foo''\<rparr>"
  let ?P2 = "emptyParams\<lparr>siteId := Some ''s1'', args := [''networkId'' \<mapsto> ''n1''],
                extraQuery := Some [''force'' \<mapsto> ''true'']\<rparr>"
  let ?P3 = "emptyParams\<lparr>siteId := Some ''s1'', args := [''networkId'' \<mapsto> ''n1''],
                extraQuery := Some [''dryRun'' \<mapsto> ''true'']\<rparr>"
  let ?qp = "\<lparr>QueryDef.name = ''force'', required = False, desc = ''Force deletion''\<rparr>"
  let ?dry = "\<lparr>QueryDef.name = ''dry-run'', required = False, desc = ''Dry run''\<rparr>"
  let ?cmd3 = "deleteNetwork\<lparr>CmdDef.extraQuery := [?dry]\<rparr>"
  have pag: "paginatable devicesList" by (simp add: devicesList_eq)
  have q1: "query (resolveRequest devicesList ?P1) =
      [(''offset'', ''10''), (''limit'', ''50''), (''filter'', ''name eq foo'')]"
    by (simp add: devicesList_eq emptyParams_def resolveRequest_def pagination_query_def
        truthy_str_def)
  have "paginatable devicesList \<and> offset ?P1 = Some ''10''"
    using resolveRequest_query_emitted[where cmd = devicesList and params = ?P1, THEN conjunct2, THEN conjunct1,
        rule_format, of "''10''"] q1
    by (simp add: devicesList_eq)
  have np: "\<not> paginatable deleteVouchers" by (simp add: deleteVouchers_eq)
  have base1: "query (resolveRequest deleteVouchers (emptyParams\<lparr>siteId := Some ''s1''\<rparr>)) = []"
    by (simp add: deleteVouchers_eq emptyParams_def resolveRequest_def pagination_query_def
        add_extra_def extra_value_def)
  have base2: "query (resolveRequest deleteVouchers
        (emptyParams\<lparr>siteId := Some ''s1'', extraQuery := Some [''filter'' \<mapsto> ''name eq foo'']\<rparr>))
      = [(''filter'', ''name eq foo'')]"
    by (simp add: deleteVouchers_eq emptyParams_def resolveRequest_def pagination_query_def
        add_extra_def extra_value_def)
  have d1: "query (resolveRequest deleteVouchers
        (emptyParams\<lparr>siteId := Some ''s1'', offset := Some ''10'', limit := Some ''50'',
                      filter_expr := Some ''name eq foo''\<rparr>)) = []"
    using resolveRequest_query_emitted[where cmd = deleteVouchers
        and params = "emptyParams\<lparr>siteId := Some ''s1''\<rparr>"
        and x = "Some ''10''" and y = "Some ''50''" and z = "Some ''name eq foo''", THEN conjunct1, THEN mp, OF np] base1
    by simp
  have d2: "query (resolveRequest deleteVouchers
        (emptyParams\<lparr>siteId := Some ''s1'', extraQuery := Some [''filter'' \<mapsto> ''name eq foo''],
                      offset := Some ''10'', limit := Some ''50'', filter_expr := Some ''x''\<rparr>))
      = [(''filter'', ''name eq foo'')]"
    using resolveRequest_query_emitted[where cmd = deleteVouchers
        and params = "emptyParams\<lparr>siteId := Some ''s1'',
                        extraQuery := Some [''filter'' \<mapsto> ''name eq foo'']\<rparr>"
        and x = "Some ''10''" and y = "Some ''50''" and z = "Some ''x''", THEN conjunct1, THEN mp, OF np] base2
    by simp
  have mem: "?qp \<in> set (CmdDef.extraQuery deleteNetwork)"
    by (simp add: deleteNetwork_eq)
  have f: "map_of (query (resolveRequest deleteNetwork ?P2)) (QueryDef.name ?qp) = Some ''true''"
    using resolveRequest_query_emitted[where cmd = deleteNetwork and params = ?P2, THEN conjunct2, THEN conjunct2,
        THEN conjunct2, THEN conjunct2, rule_format, of ?qp "[''force'' \<mapsto> ''true'']" "''true''"] mem
    by simp
  have "map_of (query (resolveRequest ?cmd3 ?P3)) (QueryDef.name ?dry) = Some ''true''"
    using resolveRequest_query_emitted[where cmd = ?cmd3 and params = ?P3, THEN conjunct2, THEN conjunct2,
        THEN conjunct2, THEN conjunct2, rule_format, of ?dry "[''dryRun'' \<mapsto> ''true'']" "''true''"]
    by (simp add: camelCase_dry_run)
  with pag q1 np d1 d2 mem f show ?thesis by simp
qed

section \<open>Pagination: one iteration, and the log of a run\<close>

lemma pages_loop_Suc:
  "pages_loop (Suc fuel) cmd params client pageSize allData off s =
     (case executeCommand cmd (pageParams params off pageSize) client s of
        (r, s') \<Rightarrow>
          (case page_step pageSize allData off r of
             Return x \<Rightarrow> Some (x, s')
           | Continue allData' off' \<Rightarrow>
               pages_loop fuel cmd params client pageSize allData' off' s'))"
  by (simp add: page_step_def Let_def split: prod.splits sum.splits option.splits json.splits)

lemma page_step_Continue:
  assumes "page_step pageSize allData off r = Continue allData' off'"
  shows "\<exists>d. page_of r = Some d \<and> allData' = allData @ d \<and> off' = off + length d \<and>
             pageSize \<le> length d"
  using assms
  by (auto simp: page_step_def Let_def split: sum.splits option.splits json.splits if_splits)

lemma page_step_page:
  assumes "page_of r = Some d"
  shows "page_step pageSize allData off r =
    (if length_ge (length (allData @ d)) (total_of r (length (allData @ d))) \<or> length d < pageSize
     then Return (Inr (JObj [(''data'', JArr (allData @ d)),
                             (''totalCount'', JNum (total_of r (length (allData @ d))))]))
     else Continue (allData @ d) (off + length d))"
  using assms
  by (cases r) (auto simp: page_step_def Let_def split: sum.splits option.splits json.splits)

lemma page_step_not_page:
  assumes "page_of (Inr result) = None" and "result \<noteq> JNull"
  shows "page_step pageSize allData off (Inr result) = Return (Inr result)"
  using assms
  by (cases result) (auto simp: page_step_def split: option.splits json.splits)

lemma executeCommand_recording:
  "executeCommand cmd params (recording client) (s, calls) =
     (fst (client (resolveRequest cmd params) s),
      (snd (client (resolveRequest cmd params) s),
       calls @ [(resolveRequest cmd params, fst (client (resolveRequest cmd params) s))]))"
  by (simp add: executeCommand_def recording_def split: prod.splits)

lemma pages_loop_returns:
  assumes "client (resolveRequest cmd (pageParams params off pageSize)) s = (r, s1)"
    and "page_step pageSize allData off r = Return x"
  shows "pages_loop (Suc fuel) cmd params (recording client) pageSize allData off (s, calls0)
       = Some (x, (s1, calls0 @ [(resolveRequest cmd (pageParams params off pageSize), r)]))"
  using assms
  by (simp add: pages_loop_Suc executeCommand_recording del: pages_loop.simps)

lemma items_of_page: "page_of r = Some d \<Longrightarrow> items_of r = d"
  by (simp add: items_of_def)

text \<open>
  The log of a run of the loop: every request is built from the offset reached so far,
  every answer but the last is a full page, and the result is what the loop's body
  decides on the last answer with the items merged before it.
\<close>

lemma pages_loop_trace:
  "pages_loop fuel cmd params (recording client) pageSize allData off (s, calls0)
     = Some (res, (s', calls))
   \<Longrightarrow> \<exists>new. calls = calls0 @ new \<and> new \<noteq> [] \<and>
      map fst new = map (\<lambda>k. resolveRequest cmd (pageParams params k pageSize))
                        (offsets_from off (map snd new)) \<and>
      (\<forall>i. Suc i < length new \<longrightarrow>
           (\<exists>d. page_of (snd (new ! i)) = Some d \<and> pageSize \<le> length d)) \<and>
      page_step pageSize (allData @ concat (map items_of (butlast (map snd new))))
         (off + length (concat (map items_of (butlast (map snd new))))) (snd (last new))
        = Return res"
proof (induction fuel arbitrary: allData off s calls0)
  case 0
  then show ?case by simp
next
  case (Suc fuel)
  let ?req = "resolveRequest cmd (pageParams params off pageSize)"
  obtain r s1 where cl: "client ?req s = (r, s1)" by (cases "client ?req s")
  show ?case
  proof (cases "page_step pageSize allData off r")
    case (Return x)
    with Suc.prems cl have "res = x" "calls = calls0 @ [(?req, r)]"
      by (simp_all add: pages_loop_Suc executeCommand_recording del: pages_loop.simps)
    with Return show ?thesis
      by (intro exI[of _ "[(?req, r)]"]) simp
  next
    case (Continue a' off')
    with Suc.prems cl have run:
      "pages_loop fuel cmd params (recording client) pageSize a' off' (s1, calls0 @ [(?req, r)])
         = Some (res, (s', calls))"
      by (simp add: pages_loop_Suc executeCommand_recording del: pages_loop.simps)
    from page_step_Continue[OF Continue] obtain d where
      d: "page_of r = Some d" "a' = allData @ d" "off' = off + length d" "pageSize \<le> length d"
      by blast
    from Suc.IH[OF run] obtain new where
      n1: "calls = (calls0 @ [(?req, r)]) @ new" and n2: "new \<noteq> []" and
      n3: "map fst new = map (\<lambda>k. resolveRequest cmd (pageParams params k pageSize))
                             (offsets_from off' (map snd new))" and
      n4: "\<forall>i. Suc i < length new \<longrightarrow>
              (\<exists>d. page_of (snd (new ! i)) = Some d \<and> pageSize \<le> length d)" and
      n5: "page_step pageSize (a' @ concat (map items_of (butlast (map snd new))))
             (off' + length (concat (map items_of (butlast (map snd new))))) (snd (last new))
            = Return res"
      by blast
    let ?new = "(?req, r) # new"
    have "calls = calls0 @ ?new" using n1 by simp
    moreover have "?new \<noteq> []" by simp
    moreover have "map fst ?new = map (\<lambda>k. resolveRequest cmd (pageParams params k pageSize))
                                      (offsets_from off (map snd ?new))"
      using n3 d by (simp add: items_of_page)
    moreover have "\<forall>i. Suc i < length ?new \<longrightarrow>
                     (\<exists>d. page_of (snd (?new ! i)) = Some d \<and> pageSize \<le> length d)"
    proof (intro allI impI)
      fix i assume "Suc i < length ?new"
      then show "\<exists>d. page_of (snd (?new ! i)) = Some d \<and> pageSize \<le> length d"
        using n4 d by (cases i) auto
    qed
    moreover have "page_step pageSize (allData @ concat (map items_of (butlast (map snd ?new))))
         (off + length (concat (map items_of (butlast (map snd ?new))))) (snd (last ?new))
        = Return res"
      using n5 n2 d by (simp add: items_of_page add.assoc)
    ultimately show ?thesis by blast
  qed
qed

lemma executeAllPages_trace:
  assumes "paginatable cmd"
    and "executeAllPages fuel cmd params (recording client) pageSize (s, []) = Some (res, (s', calls))"
  shows "calls \<noteq> []"
    and "map fst calls = map (\<lambda>k. resolveRequest cmd (pageParams params k pageSize))
                             (offsets_from 0 (map snd calls))"
    and "\<And>i. Suc i < length calls \<Longrightarrow>
           \<exists>d. page_of (snd (calls ! i)) = Some d \<and> pageSize \<le> length d"
    and "page_step pageSize (concat (map items_of (butlast (map snd calls))))
           (length (concat (map items_of (butlast (map snd calls))))) (snd (last calls))
          = Return res"
proof -
  from assms have "pages_loop fuel cmd params (recording client) pageSize [] 0 (s, [])
      = Some (res, (s', calls))"
    by (simp add: executeAllPages_def)
  from pages_loop_trace[OF this] obtain new where
    "calls = [] @ new" "new \<noteq> []"
    "map fst new = map (\<lambda>k. resolveRequest cmd (pageParams params k pageSize))
                        (offsets_from 0 (map snd new))"
    "\<forall>i. Suc i < length new \<longrightarrow>
           (\<exists>d. page_of (snd (new ! i)) = Some d \<and> pageSize \<le> length d)"
    "page_step pageSize ([] @ concat (map items_of (butlast (map snd new))))
         (0 + length (concat (map items_of (butlast (map snd new))))) (snd (last new))
        = Return res"
    by blast
  then show "calls \<noteq> []"
    and "map fst calls = map (\<lambda>k. resolveRequest cmd (pageParams params k pageSize))
                             (offsets_from 0 (map snd calls))"
    and "\<And>i. Suc i < length calls \<Longrightarrow>
           \<exists>d. page_of (snd (calls ! i)) = Some d \<and> pageSize \<le> length d"
    and "page_step pageSize (concat (map items_of (butlast (map snd calls))))
           (length (concat (map items_of (butlast (map snd calls))))) (snd (last calls))
          = Return res"
    by simp_all
qed

lemma concat_items_last:
  assumes "calls \<noteq> []"
  shows "concat (map items_of (map snd calls)) =
     concat (map items_of (butlast (map snd calls))) @ items_of (snd (last calls))"
proof -
  have "map snd calls \<noteq> []" using assms by simp
  then have "map snd calls = butlast (map snd calls) @ [last (map snd calls)]"
    by (rule append_butlast_last_id[symmetric])
  then have "concat (map items_of (map snd calls)) =
      concat (map items_of (butlast (map snd calls) @ [last (map snd calls)]))"
    by simp
  also have "\<dots> = concat (map items_of (butlast (map snd calls))) @ items_of (last (map snd calls))"
    by simp
  finally show ?thesis using assms by (simp add: last_map)
qed

text \<open>The result of a run whose last answer is a page.\<close>

lemma executeAllPages_result_page:
  assumes "paginatable cmd"
    and "executeAllPages fuel cmd params (recording client) pageSize (s, []) = Some (res, (s', calls))"
    and "page_of (snd (last calls)) = Some d"
  shows "res = Inr (JObj
           [(''data'', JArr (concat (map items_of (map snd calls)))),
            (''totalCount'', JNum (total_of (snd (last calls))
                                     (length (concat (map items_of (map snd calls))))))])"
proof -
  let ?acc = "concat (map items_of (butlast (map snd calls)))"
  have ne: "calls \<noteq> []" by (rule executeAllPages_trace(1)[OF assms(1,2)])
  have all: "concat (map items_of (map snd calls)) = ?acc @ d"
    using concat_items_last[OF ne] assms(3) by (simp add: items_of_page)
  have "page_step pageSize ?acc (length ?acc) (snd (last calls)) = Return res"
    by (rule executeAllPages_trace(4)[OF assms(1,2)])
  then show ?thesis
    unfolding page_step_page[OF assms(3)] all
    by (simp split: if_splits)
qed

section \<open>Pagination: the claims\<close>

lemma offset_query_pageParams:
  assumes "paginatable cmd"
  shows "''offset'' \<notin> QueryDef.name ` set (CmdDef.extraQuery cmd) \<Longrightarrow>
           map_of (query (resolveRequest cmd (pageParams params k pageSize))) ''offset''
             = Some (js_String k)"
    and "''limit'' \<notin> QueryDef.name ` set (CmdDef.extraQuery cmd) \<Longrightarrow>
           map_of (query (resolveRequest cmd (pageParams params k pageSize))) ''limit''
             = Some (js_String pageSize)"
  using assms by (simp_all add: query_resolveRequest map_of_pagination_query pageParams_def)

lemma js_String_digit: "n < 10 \<Longrightarrow> js_String n = [digit_char n]"
  by (simp add: js_String.simps)

text \<open>
  C1. For a paginatable descriptor, the requests of a run are built, in order, from the
  caller's parameters with \<^verbatim>\<open>limit\<close> set to the page size and \<^verbatim>\<open>offset\<close> set to 0 and
  then increased by the size of each page read (and these are the query's \<^verbatim>\<open>offset\<close>
  and \<^verbatim>\<open>limit\<close> unless the descriptor declares an extra query parameter of that name);
  when the run completes on a page, the result is \<^verbatim>\<open>{ data, totalCount }\<close> with the
  pages' items concatenated in fetch order. With page size 2 and the two pages of the
  specification's example the result holds the four items and a total of 4, after exactly
  two transport invocations, at offsets 0 and 2.
\<close>

theorem executeAllPages_merges_pages:
  assumes "paginatable cmd"
  shows "(executeAllPages fuel cmd params (recording client) pageSize (s, [])
            = Some (res, (s', calls)) \<longrightarrow>
          calls \<noteq> [] \<and>
          map fst calls = map (\<lambda>k. resolveRequest cmd (pageParams params k pageSize))
                              (offsets_from 0 (map snd calls)) \<and>
          (''offset'' \<notin> QueryDef.name ` set (CmdDef.extraQuery cmd) \<longrightarrow>
             map (\<lambda>req. map_of (query req) ''offset'') (map fst calls)
               = map (\<lambda>k. Some (js_String k)) (offsets_from 0 (map snd calls))) \<and>
          (''limit'' \<notin> QueryDef.name ` set (CmdDef.extraQuery cmd) \<longrightarrow>
             (\<forall>req \<in> set (map fst calls). map_of (query req) ''limit'' = Some (js_String pageSize))) \<and>
          (\<forall>d. page_of (snd (last calls)) = Some d \<longrightarrow>
             res = Inr (JObj
               [(''data'', JArr (concat (map items_of (map snd calls)))),
                (''totalCount'', JNum (total_of (snd (last calls))
                                         (length (concat (map items_of (map snd calls))))))])))
       \<and>
         executeAllPages (Suc (Suc fuel)) cmd params
            (recording (mockClient
               [JObj [(''data'', JArr [item 1, item 2]), (''totalCount'', JNum (Finite 4))],
                JObj [(''data'', JArr [item 3, item 4]), (''totalCount'', JNum (Finite 4))]]))
            2 (0, [])
          = Some (Inr (JObj [(''data'', JArr [item 1, item 2, item 3, item 4]),
                             (''totalCount'', JNum (Finite 4))]),
                  (2, [(resolveRequest cmd (pageParams params 0 2),
                        Inr (JObj [(''data'', JArr [item 1, item 2]), (''totalCount'', JNum (Finite 4))])),
                       (resolveRequest cmd (pageParams params 2 2),
                        Inr (JObj [(''data'', JArr [item 3, item 4]), (''totalCount'', JNum (Finite 4))]))]))"
proof (intro conjI impI)
  assume run: "executeAllPages fuel cmd params (recording client) pageSize (s, [])
            = Some (res, (s', calls))"
  show "calls \<noteq> []" by (rule executeAllPages_trace(1)[OF assms run])
  show reqs: "map fst calls = map (\<lambda>k. resolveRequest cmd (pageParams params k pageSize))
                              (offsets_from 0 (map snd calls))"
    by (rule executeAllPages_trace(2)[OF assms run])
  show "map (\<lambda>req. map_of (query req) ''offset'') (map fst calls)
               = map (\<lambda>k. Some (js_String k)) (offsets_from 0 (map snd calls))"
    if "''offset'' \<notin> QueryDef.name ` set (CmdDef.extraQuery cmd)"
    unfolding reqs using offset_query_pageParams(1)[OF assms that] by simp
  show "\<forall>req \<in> set (map fst calls). map_of (query req) ''limit'' = Some (js_String pageSize)"
    if "''limit'' \<notin> QueryDef.name ` set (CmdDef.extraQuery cmd)"
    unfolding reqs using offset_query_pageParams(2)[OF assms that] by auto
  show "\<forall>d. page_of (snd (last calls)) = Some d \<longrightarrow>
             res = Inr (JObj
               [(''data'', JArr (concat (map items_of (map snd calls)))),
                (''totalCount'', JNum (total_of (snd (last calls))
                                         (length (concat (map items_of (map snd calls))))))])"
    using executeAllPages_result_page[OF assms run] by blast
next
  show "executeAllPages (Suc (Suc fuel)) cmd params
            (recording (mockClient
               [JObj [(''data'', JArr [item 1, item 2]), (''totalCount'', JNum (Finite 4))],
                JObj [(''data'', JArr [item 3, item 4]), (''totalCount'', JNum (Finite 4))]]))
            2 (0, [])
          = Some (Inr (JObj [(''data'', JArr [item 1, item 2, item 3, item 4]),
                             (''totalCount'', JNum (Finite 4))]),
                  (2, [(resolveRequest cmd (pageParams params 0 2),
                        Inr (JObj [(''data'', JArr [item 1, item 2]), (''totalCount'', JNum (Finite 4))])),
                       (resolveRequest cmd (pageParams params 2 2),
                        Inr (JObj [(''data'', JArr [item 3, item 4]), (''totalCount'', JNum (Finite 4))]))]))"
    using assms
    by (simp add: executeAllPages_def executeCommand_def recording_def mockClient_def
        numeral_2_eq_2 Let_def)
qed


theorem executeAllPages_merges_pages_witness:
  "paginatable devicesList \<and>
   executeAllPages 2 devicesList emptyParams
      (recording (mockClient
         [JObj [(''data'', JArr [item 1, item 2]), (''totalCount'', JNum (Finite 4))],
          JObj [(''data'', JArr [item 3, item 4]), (''totalCount'', JNum (Finite 4))]]))
      2 (0, [])
    = Some (Inr (JObj [(''data'', JArr [item 1, item 2, item 3, item 4]),
                       (''totalCount'', JNum (Finite 4))]),
            (2, [(resolveRequest devicesList (pageParams emptyParams 0 2),
                  Inr (JObj [(''data'', JArr [item 1, item 2]), (''totalCount'', JNum (Finite 4))])),
                 (resolveRequest devicesList (pageParams emptyParams 2 2),
                  Inr (JObj [(''data'', JArr [item 3, item 4]), (''totalCount'', JNum (Finite 4))]))])) \<and>
   map (\<lambda>req. map_of (query req) ''offset'')
     [resolveRequest devicesList (pageParams emptyParams 0 2),
      resolveRequest devicesList (pageParams emptyParams 2 2)] = [Some ''0'', Some ''2'']"
proof -
  let ?p1 = "JObj [(''data'', JArr [item 1, item 2]), (''totalCount'', JNum (Finite 4))]"
  let ?p2 = "JObj [(''data'', JArr [item 3, item 4]), (''totalCount'', JNum (Finite 4))]"
  let ?calls = "[(resolveRequest devicesList (pageParams emptyParams 0 2), Inr ?p1),
                 (resolveRequest devicesList (pageParams emptyParams 2 2), Inr ?p2)]"
  let ?res = "Inr (JObj [(''data'', JArr [item 1, item 2, item 3, item 4]),
                         (''totalCount'', JNum (Finite 4))])"
  have pag: "paginatable devicesList" by (simp add: devicesList_eq)
  have run: "executeAllPages 2 devicesList emptyParams (recording (mockClient [?p1, ?p2])) 2 (0, [])
      = Some (?res, (2, ?calls))"
    using executeAllPages_merges_pages[OF pag, where fuel = 0 and params = emptyParams,
        THEN conjunct2]
    by (simp add: numeral_2_eq_2)
  have noextra: "''offset'' \<notin> QueryDef.name ` set (CmdDef.extraQuery devicesList)"
    by (simp add: devicesList_eq)
  have offs: "offsets_from 0 (map snd ?calls) = [0, 2]"
    by (simp add: items_of_def)
  have "map (\<lambda>req. map_of (query req) ''offset'') (map fst ?calls)
      = map (\<lambda>k. Some (js_String k)) (offsets_from 0 (map snd ?calls))"
    using executeAllPages_merges_pages[OF pag, THEN conjunct1, THEN mp, OF run,
        THEN conjunct2, THEN conjunct2, THEN conjunct1] noextra
    by simp
  then have "map (\<lambda>req. map_of (query req) ''offset'') (map fst ?calls) = [Some ''0'', Some ''2'']"
    unfolding offs by (simp add: js_String_digit digit_char_def)
  with pag run show ?thesis by simp
qed

text \<open>
  C2. For a paginatable descriptor, a fetched page with fewer items than the page size
  is the last transport invocation of the run, whatever total the response reports, and
  the run returns the items merged up to and including it; the loop returns on such a page
  at once, after the one invocation that fetched it. With page size 5 and the single page
  \<^verbatim>\<open>{data:[{id:1}], totalCount:100}\<close> there is exactly one transport call and the
  result holds that single item.
\<close>

theorem executeAllPages_short_page_stops:
  assumes "paginatable cmd"
  shows "(executeAllPages fuel cmd params (recording client) pageSize (s, [])
            = Some (res, (s', calls)) \<longrightarrow>
          (\<forall>i d. i < length calls \<and> page_of (snd (calls ! i)) = Some d \<and> length d < pageSize \<longrightarrow>
             Suc i = length calls \<and>
             res = Inr (JObj
               [(''data'', JArr (concat (map items_of (map snd calls)))),
                (''totalCount'', JNum (total_of (snd (calls ! i))
                                         (length (concat (map items_of (map snd calls))))))])))
       \<and>
         (client (resolveRequest cmd (pageParams params off pageSize)) t = (Inr result, t') \<and>
          page_of (Inr result) = Some d \<and> length d < pageSize \<longrightarrow>
          pages_loop (Suc fuel) cmd params (recording client) pageSize allData off (t, calls0)
            = Some (Inr (JObj
                      [(''data'', JArr (allData @ d)),
                       (''totalCount'', JNum (total_of (Inr result) (length (allData @ d))))]),
                    (t', calls0 @ [(resolveRequest cmd (pageParams params off pageSize), Inr result)])))
       \<and>
         executeAllPages (Suc fuel) cmd params
            (recording (mockClient
               [JObj [(''data'', JArr [item 1]), (''totalCount'', JNum (Finite 100))]]))
            5 (0, [])
          = Some (Inr (JObj [(''data'', JArr [item 1]), (''totalCount'', JNum (Finite 100))]),
                  (1, [(resolveRequest cmd (pageParams params 0 5),
                        Inr (JObj [(''data'', JArr [item 1]), (''totalCount'', JNum (Finite 100))]))]))"
proof (intro conjI impI allI)
  fix i d
  assume run: "executeAllPages fuel cmd params (recording client) pageSize (s, [])
            = Some (res, (s', calls))"
    and short: "i < length calls \<and> page_of (snd (calls ! i)) = Some d \<and> length d < pageSize"
  have ne: "calls \<noteq> []" by (rule executeAllPages_trace(1)[OF assms run])
  show last: "Suc i = length calls"
  proof (rule ccontr)
    assume "Suc i \<noteq> length calls"
    with short have "Suc i < length calls" by simp
    from executeAllPages_trace(3)[OF assms run this] short show False by simp
  qed
  then have "i = length calls - 1" by simp
  then have "last calls = calls ! i" using ne by (simp add: last_conv_nth)
  with executeAllPages_result_page[OF assms run, of d] short
  show "res = Inr (JObj
               [(''data'', JArr (concat (map items_of (map snd calls)))),
                (''totalCount'', JNum (total_of (snd (calls ! i))
                                         (length (concat (map items_of (map snd calls))))))])"
    by simp
next
  assume a: "client (resolveRequest cmd (pageParams params off pageSize)) t = (Inr result, t') \<and>
          page_of (Inr result) = Some d \<and> length d < pageSize"
  then have c: "client (resolveRequest cmd (pageParams params off pageSize)) t = (Inr result, t')"
    by simp
  from a have ps: "page_step pageSize allData off (Inr result) =
      Return (Inr (JObj
                [(''data'', JArr (allData @ d)),
                 (''totalCount'', JNum (total_of (Inr result) (length (allData @ d))))]))"
    by (simp add: page_step_page del: page_of.simps total_of.simps)
  show "pages_loop (Suc fuel) cmd params (recording client) pageSize allData off (t, calls0)
            = Some (Inr (JObj
                      [(''data'', JArr (allData @ d)),
                       (''totalCount'', JNum (total_of (Inr result) (length (allData @ d))))]),
                    (t', calls0 @ [(resolveRequest cmd (pageParams params off pageSize), Inr result)]))"
    by (rule pages_loop_returns) (fact c, fact ps)
next
  show "executeAllPages (Suc fuel) cmd params
            (recording (mockClient
               [JObj [(''data'', JArr [item 1]), (''totalCount'', JNum (Finite 100))]]))
            5 (0, [])
          = Some (Inr (JObj [(''data'', JArr [item 1]), (''totalCount'', JNum (Finite 100))]),
                  (1, [(resolveRequest cmd (pageParams params 0 5),
                        Inr (JObj [(''data'', JArr [item 1]), (''totalCount'', JNum (Finite 100))]))]))"
    using assms
    by (simp add: executeAllPages_def executeCommand_def recording_def mockClient_def Let_def)
qed

theorem executeAllPages_short_page_stops_witness:
  "paginatable devicesList \<and>
   executeAllPages 1 devicesList emptyParams
      (recording (mockClient
         [JObj [(''data'', JArr [item 1]), (''totalCount'', JNum (Finite 100))]]))
      5 (0, [])
    = Some (Inr (JObj [(''data'', JArr [item 1]), (''totalCount'', JNum (Finite 100))]),
            (1, [(resolveRequest devicesList (pageParams emptyParams 0 5),
                  Inr (JObj [(''data'', JArr [item 1]), (''totalCount'', JNum (Finite 100))]))])) \<and>
   page_of (Inr (JObj [(''data'', JArr [item 1]), (''totalCount'', JNum (Finite 100))]))
     = Some [item 1] \<and>
   Suc 0 = length [(resolveRequest devicesList (pageParams emptyParams 0 5),
                  Inr (JObj [(''data'', JArr [item 1]), (''totalCount'', JNum (Finite 100))]))]"
proof -
  let ?p = "JObj [(''data'', JArr [item 1]), (''totalCount'', JNum (Finite 100))]"
  let ?calls = "[(resolveRequest devicesList (pageParams emptyParams 0 5), Inr ?p)]"
  have pag: "paginatable devicesList" by (simp add: devicesList_eq)
  have run: "executeAllPages 1 devicesList emptyParams (recording (mockClient [?p])) 5 (0, [])
      = Some (Inr ?p, (1, ?calls))"
    using executeAllPages_short_page_stops[OF pag, where fuel = 0 and params = emptyParams,
        THEN conjunct2, THEN conjunct2]
    by simp
  have page: "page_of (snd (?calls ! 0)) = Some [item 1]" by simp
  have "Suc 0 = length ?calls"
    using executeAllPages_short_page_stops[OF pag, THEN conjunct1, THEN mp, OF run,
        rule_format, of 0 "[item 1]"] page
    by simp
  with pag run page show ?thesis by simp
qed

text \<open>
  For a paginatable descriptor, a transport response other than \<^verbatim>\<open>null\<close> that is not
  shaped as \<^verbatim>\<open>{ data: list, ... }\<close> is the last transport invocation of the run and is
  returned as it is; the loop returns it at once, after the one invocation that fetched
  it, also when items were merged before: they are not part of the result.
\<close>

lemma executeAllPages_non_page_response:
  assumes "paginatable cmd" and "result \<noteq> JNull" and "page_of (Inr result) = None"
  shows "(executeAllPages fuel cmd params (recording client) pageSize (s, [])
            = Some (res, (s', calls)) \<and>
          i < length calls \<and> snd (calls ! i) = Inr result \<longrightarrow>
          Suc i = length calls \<and> res = Inr result)
       \<and>
         (client (resolveRequest cmd (pageParams params off pageSize)) t = (Inr result, t') \<longrightarrow>
          pages_loop (Suc fuel) cmd params (recording client) pageSize allData off (t, calls0)
            = Some (Inr result,
                    (t', calls0 @ [(resolveRequest cmd (pageParams params off pageSize), Inr result)])))"
proof (intro conjI impI)
  assume a: "executeAllPages fuel cmd params (recording client) pageSize (s, [])
            = Some (res, (s', calls)) \<and>
          i < length calls \<and> snd (calls ! i) = Inr result"
  then have run: "executeAllPages fuel cmd params (recording client) pageSize (s, [])
            = Some (res, (s', calls))"
    by simp
  have ne: "calls \<noteq> []" by (rule executeAllPages_trace(1)[OF assms(1) run])
  show last: "Suc i = length calls"
  proof (rule ccontr)
    assume "Suc i \<noteq> length calls"
    with a have "Suc i < length calls" by simp
    from executeAllPages_trace(3)[OF assms(1) run this] a assms(3) show False by simp
  qed
  then have "i = length calls - 1" by simp
  then have "snd (last calls) = Inr result" using ne a by (simp add: last_conv_nth)
  with executeAllPages_trace(4)[OF assms(1) run] page_step_not_page[OF assms(3,2)]
  show "res = Inr result" by simp
next
  assume c: "client (resolveRequest cmd (pageParams params off pageSize)) t = (Inr result, t')"
  show "pages_loop (Suc fuel) cmd params (recording client) pageSize allData off (t, calls0)
            = Some (Inr result,
                    (t', calls0 @ [(resolveRequest cmd (pageParams params off pageSize), Inr result)]))"
    by (rule pages_loop_returns) (fact c, rule page_step_not_page[OF assms(3,2)])
qed

lemma executeAllPages_non_page_response_example:
  "paginatable devicesList \<and>
   JObj [(''statusCode'', JNum (Finite 500)), (''message'', JStr ''boom'')] \<noteq> JNull \<and>
   page_of (Inr (JObj [(''statusCode'', JNum (Finite 500)), (''message'', JStr ''boom'')])) = None \<and>
   executeAllPages 2 devicesList emptyParams
      (recording (mockClient
         [JObj [(''data'', JArr [item 1, item 2]), (''totalCount'', JNum (Finite 4))],
          JObj [(''statusCode'', JNum (Finite 500)), (''message'', JStr ''boom'')]]))
      2 (0, [])
    = Some (Inr (JObj [(''statusCode'', JNum (Finite 500)), (''message'', JStr ''boom'')]),
            (2, [(resolveRequest devicesList (pageParams emptyParams 0 2),
                  Inr (JObj [(''data'', JArr [item 1, item 2]), (''totalCount'', JNum (Finite 4))])),
                 (resolveRequest devicesList (pageParams emptyParams 2 2),
                  Inr (JObj [(''statusCode'', JNum (Finite 500)), (''message'', JStr ''boom'')]))]))"
proof -
  let ?page = "JObj [(''data'', JArr [item 1, item 2]), (''totalCount'', JNum (Finite 4))]"
  let ?err = "JObj [(''statusCode'', JNum (Finite 500)), (''message'', JStr ''boom'')]"
  let ?calls = "[(resolveRequest devicesList (pageParams emptyParams 0 2), Inr ?page),
                 (resolveRequest devicesList (pageParams emptyParams 2 2), Inr ?err)]"
  have pag: "paginatable devicesList" by (simp add: devicesList_eq)
  have nn: "?err \<noteq> JNull" by simp
  have np: "page_of (Inr ?err) = None" by simp
  obtain res where run: "executeAllPages 2 devicesList emptyParams
      (recording (mockClient [?page, ?err])) 2 (0, []) = Some (res, (2, ?calls))"
    using pag
    by (simp add: executeAllPages_def executeCommand_def recording_def mockClient_def
        numeral_2_eq_2 Let_def)
  have "Suc 1 = length ?calls \<and> res = Inr ?err"
    using executeAllPages_non_page_response[OF pag nn np, THEN conjunct1, rule_format,
        of 2 emptyParams "mockClient [?page, ?err]" 2 0 res 2 ?calls 1] run
    by simp
  with run pag nn np show ?thesis by simp
qed

text \<open>
  C7. A response that is not shaped as \<^verbatim>\<open>{ data: list, ... }\<close> is to be returned as it
  is, and the code's comment on that branch says so (\<^verbatim>\<open>Not a page response - return
  as-is\<close>). The code does not do this when the transport answers \<^verbatim>\<open>null\<close> (or
  \<^verbatim>\<open>undefined\<close>, as the tests' mock does past its last page): \<^verbatim>\<open>result.data\<close> is read
  before the shape is looked at, and the read raises a TypeError, on the first request and
  after a merged page alike, while the same answer to a descriptor that is not paginatable
  is returned unchanged.
\<close>

theorem executeAllPages_null_response:
  "executeAllPages 1 devicesList emptyParams (recording (mockClient [JNull])) 200 (0, [])
     = Some (Inl TypeError,
             (1, [(resolveRequest devicesList (pageParams emptyParams 0 200), Inr JNull)])) \<and>
   executeAllPages 2 devicesList emptyParams
      (recording (mockClient
         [JObj [(''data'', JArr [item 1, item 2]), (''totalCount'', JNum (Finite 4))]]))
      2 (0, [])
     = Some (Inl TypeError,
             (2, [(resolveRequest devicesList (pageParams emptyParams 0 2),
                   Inr (JObj [(''data'', JArr [item 1, item 2]), (''totalCount'', JNum (Finite 4))])),
                  (resolveRequest devicesList (pageParams emptyParams 2 2), Inr JNull)])) \<and>
   executeAllPages 1 getInfo emptyParams (recording (mockClient [JNull])) 200 (0, [])
     = Some (Inr JNull, (1, [(resolveRequest getInfo emptyParams, Inr JNull)]))"
proof -
  have "executeAllPages 1 devicesList emptyParams (recording (mockClient [JNull])) 200 (0, [])
     = Some (Inl TypeError,
             (1, [(resolveRequest devicesList (pageParams emptyParams 0 200), Inr JNull)]))"
    by (simp add: executeAllPages_def executeCommand_def recording_def mockClient_def
        devicesList_eq)
  moreover have "executeAllPages 2 devicesList emptyParams
      (recording (mockClient
         [JObj [(''data'', JArr [item 1, item 2]), (''totalCount'', JNum (Finite 4))]]))
      2 (0, [])
     = Some (Inl TypeError,
             (2, [(resolveRequest devicesList (pageParams emptyParams 0 2),
                   Inr (JObj [(''data'', JArr [item 1, item 2]), (''totalCount'', JNum (Finite 4))])),
                  (resolveRequest devicesList (pageParams emptyParams 2 2), Inr JNull)]))"
    by (simp add: executeAllPages_def executeCommand_def recording_def mockClient_def
        devicesList_eq numeral_2_eq_2 Let_def)
  moreover have "executeAllPages 1 getInfo emptyParams (recording (mockClient [JNull])) 200 (0, [])
     = Some (Inr JNull, (1, [(resolveRequest getInfo emptyParams, Inr JNull)]))"
    by (simp add: executeAllPages_def executeCommand_def recording_def mockClient_def
        getInfo_eq)
  ultimately show ?thesis by simp
qed


section \<open>Pagination: what the page requests share\<close>

lemma substitute_arg_pageParams:
  "substitute_arg (params\<lparr>offset := x, limit := y\<rparr>) = substitute_arg params"
  by (intro ext) (simp add: substitute_arg_def)

lemma extra_value_pageParams:
  "extra_value (params\<lparr>offset := x, limit := y\<rparr>) = extra_value params"
  by (intro ext) (simp add: extra_value_def)

lemma add_extra_pageParams:
  "add_extra (params\<lparr>offset := x, limit := y\<rparr>) = add_extra params"
  by (intro ext) (simp add: add_extra_def extra_value_pageParams)

lemma map_fst_add_extra:
  "map fst q = map fst q' \<Longrightarrow> map fst (add_extra params q qp) = map fst (add_extra params q' qp)"
  by (simp add: add_extra_def update_keys split: option.splits)

lemma map_fst_foldl_add_extra:
  "map fst q = map fst q' \<Longrightarrow>
   map fst (foldl (add_extra params) q qps) = map fst (foldl (add_extra params) q' qps)"
proof (induction qps arbitrary: q q')
  case Nil
  then show ?case by simp
next
  case (Cons qp qps)
  from Cons.prems have "map fst (add_extra params q qp) = map fst (add_extra params q' qp)"
    by (rule map_fst_add_extra)
  from Cons.IH[OF this] show ?case by simp
qed

lemma map_fst_pagination_query_pageParams:
  "map fst (pagination_query cmd (pageParams params k pageSize))
     = map fst (pagination_query cmd (pageParams params k' pageSize))"
  by (simp add: pagination_query_def pageParams_def Let_def split: option.splits)

text \<open>
  A page request against the request built from the caller's own parameters: the same
  method, path and body, and the same query but for \<^verbatim>\<open>offset\<close> and \<^verbatim>\<open>limit\<close>.
\<close>

lemma resolveRequest_pageParams:
  "http_method (resolveRequest cmd (pageParams params k pageSize)) = http_method (resolveRequest cmd params)"
  "path (resolveRequest cmd (pageParams params k pageSize)) = path (resolveRequest cmd params)"
  "ExecuteResult.body (resolveRequest cmd (pageParams params k pageSize))
     = ExecuteResult.body (resolveRequest cmd params)"
  by (simp_all add: resolveRequest_def pageParams_def substitute_arg_pageParams
      substitute_site_def site_or_default_def)

lemma resolveRequest_pageParams_query:
  assumes "key \<noteq> ''offset''" and "key \<noteq> ''limit''"
  shows "map_of (query (resolveRequest cmd (pageParams params k pageSize))) key
       = map_of (query (resolveRequest cmd params)) key"
proof -
  have "map_of (pagination_query cmd (pageParams params k pageSize)) key
      = map_of (pagination_query cmd params) key"
    using assms by (simp add: map_of_pagination_query pageParams_def)
  then show ?thesis
    by (auto simp: query_resolveRequest pageParams_def extra_value_pageParams)
qed

text \<open>Two page requests against each other: only the value of \<^verbatim>\<open>offset\<close> can differ.\<close>

lemma resolveRequest_pageParams_pair:
  "map fst (query (resolveRequest cmd (pageParams params k pageSize)))
     = map fst (query (resolveRequest cmd (pageParams params k' pageSize)))"
  "key \<noteq> ''offset'' \<Longrightarrow>
     map_of (query (resolveRequest cmd (pageParams params k pageSize))) key
       = map_of (query (resolveRequest cmd (pageParams params k' pageSize))) key"
proof -
  have "add_extra (pageParams params k pageSize) = add_extra (pageParams params k' pageSize)"
    by (simp add: pageParams_def add_extra_pageParams)
  then show "map fst (query (resolveRequest cmd (pageParams params k pageSize)))
     = map fst (query (resolveRequest cmd (pageParams params k' pageSize)))"
    using map_fst_foldl_add_extra[OF map_fst_pagination_query_pageParams]
    by (simp add: resolveRequest_def)
  have "map_of (pagination_query cmd (pageParams params k pageSize)) key
      = map_of (pagination_query cmd (pageParams params k' pageSize)) key"
    if "key \<noteq> ''offset''"
    using that by (simp add: map_of_pagination_query pageParams_def)
  then show "map_of (query (resolveRequest cmd (pageParams params k pageSize))) key
       = map_of (query (resolveRequest cmd (pageParams params k' pageSize))) key"
    if "key \<noteq> ''offset''"
    using that
    by (auto simp: query_resolveRequest pageParams_def extra_value_pageParams)
qed

lemma pages_loop_params_cong:
  assumes "\<And>k. pageParams params k pageSize = pageParams params' k pageSize"
  shows "pages_loop fuel cmd params client pageSize allData off s
       = pages_loop fuel cmd params' client pageSize allData off s"
proof (induction fuel arbitrary: allData off s)
  case 0
  then show ?case by simp
next
  case (Suc fuel)
  show ?case
    unfolding pages_loop_Suc assms
    by (simp add: Suc.IH split: prod.splits page_step.splits)
qed

text \<open>
  C10. The page requests of a run on a paginatable descriptor have the method, path and
  body of the request built from the caller's own parameters and its query entries other
  than \<^verbatim>\<open>offset\<close> and \<^verbatim>\<open>limit\<close>; any two of them have the same query keys in the same
  order and differ at most in the value of \<^verbatim>\<open>offset\<close>; and an \<^verbatim>\<open>offset\<close> or
  \<^verbatim>\<open>limit\<close> among the caller's parameters changes nothing: the run is the same without
  them.
\<close>

theorem executeAllPages_requests_frame:
  assumes "paginatable cmd"
  shows "(executeAllPages fuel cmd params (recording client) pageSize (s, [])
            = Some (res, (s', calls)) \<longrightarrow>
          (\<forall>req \<in> set (map fst calls).
             http_method req = CmdDef.http_method cmd \<and>
             path req = path (resolveRequest cmd params) \<and>
             ExecuteResult.body req = ExecuteResult.body (resolveRequest cmd params) \<and>
             (\<forall>key. key \<noteq> ''offset'' \<and> key \<noteq> ''limit'' \<longrightarrow>
                map_of (query req) key = map_of (query (resolveRequest cmd params)) key) \<and>
             (\<forall>req' \<in> set (map fst calls).
                map fst (query req) = map fst (query req') \<and>
                (\<forall>key. key \<noteq> ''offset'' \<longrightarrow> map_of (query req) key = map_of (query req') key))))
       \<and>
         executeAllPages fuel cmd (params\<lparr>offset := x, limit := y\<rparr>) client' pageSize t
           = executeAllPages fuel cmd params client' pageSize t"
proof (intro conjI impI)
  assume run: "executeAllPages fuel cmd params (recording client) pageSize (s, [])
            = Some (res, (s', calls))"
  have reqs: "map fst calls = map (\<lambda>k. resolveRequest cmd (pageParams params k pageSize))
                              (offsets_from 0 (map snd calls))"
    by (rule executeAllPages_trace(2)[OF assms run])
  have form: "\<exists>k. req = resolveRequest cmd (pageParams params k pageSize)"
    if "req \<in> set (map fst calls)" for req
    using that unfolding reqs by auto
  show "\<forall>req \<in> set (map fst calls).
             http_method req = CmdDef.http_method cmd \<and>
             path req = path (resolveRequest cmd params) \<and>
             ExecuteResult.body req = ExecuteResult.body (resolveRequest cmd params) \<and>
             (\<forall>key. key \<noteq> ''offset'' \<and> key \<noteq> ''limit'' \<longrightarrow>
                map_of (query req) key = map_of (query (resolveRequest cmd params)) key) \<and>
             (\<forall>req' \<in> set (map fst calls).
                map fst (query req) = map fst (query req') \<and>
                (\<forall>key. key \<noteq> ''offset'' \<longrightarrow> map_of (query req) key = map_of (query req') key))"
  proof (intro ballI conjI allI impI)
    fix req assume r: "req \<in> set (map fst calls)"
    from form[OF r] obtain k where k: "req = resolveRequest cmd (pageParams params k pageSize)" ..
    show "http_method req = CmdDef.http_method cmd"
      unfolding k by (simp add: resolveRequest_def)
    show "path req = path (resolveRequest cmd params)"
      unfolding k by (rule resolveRequest_pageParams(2))
    show "ExecuteResult.body req = ExecuteResult.body (resolveRequest cmd params)"
      unfolding k by (rule resolveRequest_pageParams(3))
    show "map_of (query req) key = map_of (query (resolveRequest cmd params)) key"
      if "key \<noteq> ''offset'' \<and> key \<noteq> ''limit''" for key
      unfolding k using that by (simp add: resolveRequest_pageParams_query)
    fix req' assume r': "req' \<in> set (map fst calls)"
    from form[OF r'] obtain k' where k': "req' = resolveRequest cmd (pageParams params k' pageSize)" ..
    show "map fst (query req) = map fst (query req')"
      unfolding k k' by (rule resolveRequest_pageParams_pair(1))
    show "map_of (query req) key = map_of (query req') key" if "key \<noteq> ''offset''" for key
      unfolding k k' using that by (rule resolveRequest_pageParams_pair(2))
  qed
next
  have "pageParams (params\<lparr>offset := x, limit := y\<rparr>) k pageSize = pageParams params k pageSize" for k
    by (simp add: pageParams_def)
  from pages_loop_params_cong[OF this]
  show "executeAllPages fuel cmd (params\<lparr>offset := x, limit := y\<rparr>) client' pageSize t
           = executeAllPages fuel cmd params client' pageSize t"
    using assms by (simp add: executeAllPages_def)
qed

theorem executeAllPages_requests_frame_witness:
  "paginatable devicesList \<and>
   executeAllPages 2 devicesList
      (emptyParams\<lparr>filter_expr := Some ''name eq foo'', offset := Some ''7'', limit := Some ''3''\<rparr>)
      (recording (mockClient
         [JObj [(''data'', JArr [item 1, item 2]), (''totalCount'', JNum (Finite 4))],
          JObj [(''data'', JArr [item 3, item 4]), (''totalCount'', JNum (Finite 4))]]))
      2 (0, [])
    = Some (Inr (JObj [(''data'', JArr [item 1, item 2, item 3, item 4]),
                       (''totalCount'', JNum (Finite 4))]),
            (2, [(\<lparr>http_method = ''GET'', path = ''/v1/sites/default/devices'',
                   query = [(''offset'', ''0''), (''limit'', ''2''), (''filter'', ''name eq foo'')],
                   body = None\<rparr>,
                  Inr (JObj [(''data'', JArr [item 1, item 2]), (''totalCount'', JNum (Finite 4))])),
                 (\<lparr>http_method = ''GET'', path = ''/v1/sites/default/devices'',
                   query = [(''offset'', ''2''), (''limit'', ''2''), (''filter'', ''name eq foo'')],
                   body = None\<rparr>,
                  Inr (JObj [(''data'', JArr [item 3, item 4]), (''totalCount'', JNum (Finite 4))]))])) \<and>
   path (resolveRequest devicesList (emptyParams\<lparr>filter_expr := Some ''name eq foo''\<rparr>))
     = ''/v1/sites/default/devices''"
proof -
  let ?P = "emptyParams\<lparr>filter_expr := Some ''name eq foo''\<rparr>"
  let ?p1 = "JObj [(''data'', JArr [item 1, item 2]), (''totalCount'', JNum (Finite 4))]"
  let ?p2 = "JObj [(''data'', JArr [item 3, item 4]), (''totalCount'', JNum (Finite 4))]"
  let ?r0 = "\<lparr>http_method = ''GET'', path = ''/v1/sites/default/devices'',
              query = [(''offset'', ''0''), (''limit'', ''2''), (''filter'', ''name eq foo'')],
              body = None\<rparr>"
  let ?r2 = "\<lparr>http_method = ''GET'', path = ''/v1/sites/default/devices'',
              query = [(''offset'', ''2''), (''limit'', ''2''), (''filter'', ''name eq foo'')],
              body = None\<rparr>"
  let ?res = "Inr (JObj [(''data'', JArr [item 1, item 2, item 3, item 4]),
                         (''totalCount'', JNum (Finite 4))])"
  have pag: "paginatable devicesList" by (simp add: devicesList_eq)
  have r0: "resolveRequest devicesList (pageParams ?P 0 2) = ?r0"
    by (simp add: devicesList_eq resolveRequest_def pageParams_def emptyParams_def
        pagination_query_def substitute_site_def site_or_default_def truthy_str_def
        js_replace_def js_String_digit digit_char_def)
  have r2: "resolveRequest devicesList (pageParams ?P 2 2) = ?r2"
    by (simp add: devicesList_eq resolveRequest_def pageParams_def emptyParams_def
        pagination_query_def substitute_site_def site_or_default_def truthy_str_def
        js_replace_def js_String_digit digit_char_def)
  have "executeAllPages 2 devicesList ?P (recording (mockClient [?p1, ?p2])) 2 (0, [])
      = Some (?res, (2, [(resolveRequest devicesList (pageParams ?P 0 2), Inr ?p1),
                         (resolveRequest devicesList (pageParams ?P 2 2), Inr ?p2)]))"
    using pag
    by (simp add: executeAllPages_def executeCommand_def recording_def mockClient_def
        numeral_2_eq_2 Let_def)
  then have run: "executeAllPages 2 devicesList ?P (recording (mockClient [?p1, ?p2])) 2 (0, [])
      = Some (?res, (2, [(?r0, Inr ?p1), (?r2, Inr ?p2)]))"
    unfolding r0 r2 .
  note frame = executeAllPages_requests_frame[OF pag, where params = ?P and x = "Some ''7''"
      and y = "Some ''3''"]
  have over: "executeAllPages 2 devicesList (?P\<lparr>offset := Some ''7'', limit := Some ''3''\<rparr>)
        (recording (mockClient [?p1, ?p2])) 2 (0, [])
      = executeAllPages 2 devicesList ?P (recording (mockClient [?p1, ?p2])) 2 (0, [])"
    by (rule frame[THEN conjunct2])
  have mem: "?r2 \<in> set (map fst [(?r0, Inr ?p1), (?r2, Inr ?p2)])"
    by simp
  have "path ?r2 = path (resolveRequest devicesList ?P)"
    by (rule frame[THEN conjunct1, THEN mp, OF run, THEN bspec, OF mem,
          THEN conjunct2, THEN conjunct1])
  then have "path (resolveRequest devicesList ?P) = ''/v1/sites/default/devices''"
    by simp
  with pag run over show ?thesis by simp
qed

section \<open>Site identifiers: the claims\<close>

lemma sitesList_eq:
  "sitesList = \<lparr>group = Some ''sites'', action = ''list'',
     operationId = ''getSiteOverviewPage'',
     http_method = ''GET'', path = ''/v1/sites'',
     summary = ''List all local sites (site IDs are needed for most commands)'', args = [],
     needsSite = False, paginatable = True, hasBody = False, extraQuery = []\<rparr>"
  by (simp add: sitesList_def findCmd_def COMMANDS_def)

lemma findCmd_sites: "findCmd ''getSiteOverviewPage'' = Some sitesList"
  by (simp add: sitesList_def findCmd_def COMMANDS_def)

lemma paginatable_sitesList: "paginatable sitesList"
  by (simp add: sitesList_eq)

lemma sites_request:
  "resolveRequest sitesList (pageParams emptyParams 0 200) =
     \<lparr>http_method = ''GET'', path = ''/v1/sites'',
      query = [(''offset'', ''0''), (''limit'', ''200'')], body = None\<rparr>"
  by (simp add: sitesList_eq resolveRequest_def pageParams_def emptyParams_def
      pagination_query_def substitute_site_def truthy_str_def js_String.simps digit_char_def)

text \<open>
  C4, as the claim states it, fails on an identifier whose eight hexadecimal characters
  are upper case: the pattern of the code accepts the digits and \<^verbatim>\<open>a\<close> to \<^verbatim>\<open>f\<close> only,
  so with an empty cache the listing is fetched (one transport invocation).
\<close>

theorem resolveSiteId_upper_case_hex:
  "resolveSiteId 1
      (recording (mockClient [JObj [(''data'', JArr []), (''totalCount'', JNum (Finite 0))]]))
      ''ABCDEF12-3456-7890-abcd-ef1234567890'' (JNull, (0, []))
   = Some (Inr (JStr ''ABCDEF12-3456-7890-abcd-ef1234567890''),
           (JNull, (1, [(\<lparr>http_method = ''GET'', path = ''/v1/sites'',
                          query = [(''offset'', ''0''), (''limit'', ''200'')], body = None\<rparr>,
                        Inr (JObj [(''data'', JArr []), (''totalCount'', JNum (Finite 0))]))])))"
  by (simp add: resolveSiteId_def looks_like_uuid_def is_hex_digit_def findCmd_sites
      executeAllPages_def paginatable_sitesList executeCommand_def recording_def mockClient_def
      sites_request cached_or_def Let_def)

text \<open>
  C4, amended. For every input that begins with eight characters among the digits and
  the lower-case letters \<^verbatim>\<open>a\<close> to \<^verbatim>\<open>f\<close> followed by a hyphen, the resolver returns the
  input unchanged, whatever the cache holds and without any fuel, and leaves the session
  as it was: the cache is untouched and the log of transport invocations has not grown.
\<close>

theorem resolveSiteId_canonical:
  assumes "looks_like_uuid sid"
  shows "resolveSiteId fuel (recording client) sid (cache, (s, calls))
       = Some (Inr (JStr sid), (cache, (s, calls)))"
  using assms by (simp add: resolveSiteId_def)

theorem resolveSiteId_canonical_witness:
  "looks_like_uuid ''0a1b2c3d-0000-4000-8000-000000000001'' \<and>
   resolveSiteId 0 (recording (mockClient [])) ''0a1b2c3d-0000-4000-8000-000000000001''
       (JNull, (0, []))
     = Some (Inr (JStr ''0a1b2c3d-0000-4000-8000-000000000001''), (JNull, (0, [])))"
proof -
  have u: "looks_like_uuid ''0a1b2c3d-0000-4000-8000-000000000001''"
    by (simp add: looks_like_uuid_def is_hex_digit_def)
  from resolveSiteId_canonical[OF u] u show ?thesis by simp
qed

text \<open>
  C5. Once the cache holds an identifier (any non-empty string), a call with a symbolic
  identifier, whichever it is, returns the cached identifier and leaves the session as it
  was: no listing is fetched, the log of transport invocations has not grown.
\<close>

theorem resolveSiteId_single_slot:
  assumes "c \<noteq> []" and "\<not> looks_like_uuid sid"
  shows "resolveSiteId fuel (recording client) sid (JStr c, (s, calls))
       = Some (Inr (JStr c), (JStr c, (s, calls)))"
  using assms by (simp add: resolveSiteId_def cached_or_def)

text \<open>
  The scenario of the claim: \<^verbatim>\<open>default\<close> is resolved first and cached; \<^verbatim>\<open>branch\<close>,
  whose own entry of the listing has another id, then gets the id of \<^verbatim>\<open>default\<close>, and
  the log still holds the single invocation of the first call.
\<close>

theorem resolveSiteId_single_slot_witness:
  "resolveSiteId 1
      (recording (mockClient
         [JObj [(''data'', JArr
                  [JObj [(''id'', JStr ''0a1b2c3d-0000-4000-8000-000000000001''),
                         (''internalReference'', JStr ''default'')],
                   JObj [(''id'', JStr ''0a1b2c3d-0000-4000-8000-000000000002''),
                         (''internalReference'', JStr ''branch'')]]),
                (''totalCount'', JNum (Finite 2))]]))
      ''default'' (JNull, (0, []))
   = Some (Inr (JStr ''0a1b2c3d-0000-4000-8000-000000000001''),
           (JStr ''0a1b2c3d-0000-4000-8000-000000000001'',
            (1, [(resolveRequest sitesList (pageParams emptyParams 0 200),
                  Inr (JObj [(''data'', JArr
                         [JObj [(''id'', JStr ''0a1b2c3d-0000-4000-8000-000000000001''),
                                (''internalReference'', JStr ''default'')],
                          JObj [(''id'', JStr ''0a1b2c3d-0000-4000-8000-000000000002''),
                                (''internalReference'', JStr ''branch'')]]),
                       (''totalCount'', JNum (Finite 2))]))]))) \<and>
   \<not> looks_like_uuid ''branch'' \<and>
   resolveSiteId 1
      (recording (mockClient
         [JObj [(''data'', JArr
                  [JObj [(''id'', JStr ''0a1b2c3d-0000-4000-8000-000000000001''),
                         (''internalReference'', JStr ''default'')],
                   JObj [(''id'', JStr ''0a1b2c3d-0000-4000-8000-000000000002''),
                         (''internalReference'', JStr ''branch'')]]),
                (''totalCount'', JNum (Finite 2))]]))
      ''branch''
      (JStr ''0a1b2c3d-0000-4000-8000-000000000001'',
            (1, [(resolveRequest sitesList (pageParams emptyParams 0 200),
                  Inr (JObj [(''data'', JArr
                         [JObj [(''id'', JStr ''0a1b2c3d-0000-4000-8000-000000000001''),
                                (''internalReference'', JStr ''default'')],
                          JObj [(''id'', JStr ''0a1b2c3d-0000-4000-8000-000000000002''),
                                (''internalReference'', JStr ''branch'')]]),
                       (''totalCount'', JNum (Finite 2))]))]))
   = Some (Inr (JStr ''0a1b2c3d-0000-4000-8000-000000000001''),
           (JStr ''0a1b2c3d-0000-4000-8000-000000000001'',
            (1, [(resolveRequest sitesList (pageParams emptyParams 0 200),
                  Inr (JObj [(''data'', JArr
                         [JObj [(''id'', JStr ''0a1b2c3d-0000-4000-8000-000000000001''),
                                (''internalReference'', JStr ''default'')],
                          JObj [(''id'', JStr ''0a1b2c3d-0000-4000-8000-000000000002''),
                                (''internalReference'', JStr ''branch'')]]),
                       (''totalCount'', JNum (Finite 2))]))])))"
proof -
  have first: "resolveSiteId 1
      (recording (mockClient
         [JObj [(''data'', JArr
                  [JObj [(''id'', JStr ''0a1b2c3d-0000-4000-8000-000000000001''),
                         (''internalReference'', JStr ''default'')],
                   JObj [(''id'', JStr ''0a1b2c3d-0000-4000-8000-000000000002''),
                         (''internalReference'', JStr ''branch'')]]),
                (''totalCount'', JNum (Finite 2))]]))
      ''default'' (JNull, (0, []))
   = Some (Inr (JStr ''0a1b2c3d-0000-4000-8000-000000000001''),
           (JStr ''0a1b2c3d-0000-4000-8000-000000000001'',
            (1, [(resolveRequest sitesList (pageParams emptyParams 0 200),
                  Inr (JObj [(''data'', JArr
                         [JObj [(''id'', JStr ''0a1b2c3d-0000-4000-8000-000000000001''),
                                (''internalReference'', JStr ''default'')],
                          JObj [(''id'', JStr ''0a1b2c3d-0000-4000-8000-000000000002''),
                                (''internalReference'', JStr ''branch'')]]),
                       (''totalCount'', JNum (Finite 2))]))])))"
    by (simp add: resolveSiteId_def looks_like_uuid_def findCmd_sites
        executeAllPages_def paginatable_sitesList executeCommand_def recording_def
        mockClient_def site_matches_def Let_def)
  have sym: "\<not> looks_like_uuid ''branch''"
    by (simp add: looks_like_uuid_def)
  have ne: "''0a1b2c3d-0000-4000-8000-000000000001'' \<noteq> []" by simp
  from first sym resolveSiteId_single_slot[OF ne sym] show ?thesis by simp
qed


lemma executeAllPages_calls_grow:
  assumes "executeAllPages fuel cmd params (recording client) pageSize (s, calls0)
             = Some (res, (s', calls))"
  shows "length calls0 < length calls"
proof (cases "paginatable cmd")
  case True
  with assms have "pages_loop fuel cmd params (recording client) pageSize [] 0 (s, calls0)
      = Some (res, (s', calls))"
    by (simp add: executeAllPages_def)
  from pages_loop_trace[OF this] obtain new where "calls = calls0 @ new" "new \<noteq> []"
    by blast
  then show ?thesis by simp
next
  case False
  with assms show ?thesis
    by (auto simp: executeAllPages_def executeCommand_recording)
qed

lemma js_find_no_match:
  assumes "\<forall>e \<in> set entries. site_matches sid e = Inr False"
  shows "js_find (site_matches sid) entries = Inr None"
  using assms by (induction entries) simp_all

lemma site_matches_False:
  assumes "e \<noteq> JNull"
    and "get_prop e ''internalReference'' \<noteq> Inr (Some (JStr sid))"
    and "get_prop e ''id'' \<noteq> Inr (Some (JStr sid))"
  shows "site_matches sid e = Inr False"
  using assms by (cases e) (auto simp: site_matches_def)

text \<open>
  The resolver declares the entries of the listing as objects. On an entry that is
  \<^verbatim>\<open>null\<close>, which that type excludes, comparing \<^verbatim>\<open>s.internalReference\<close> raises.
\<close>

lemma resolveSiteId_null_entry:
  "resolveSiteId 1
      (recording (mockClient [JObj [(''data'', JArr [JNull]), (''totalCount'', JNum (Finite 1))]]))
      ''default'' (JNull, (0, []))
   = Some (Inl TypeError,
           (JNull, (1, [(resolveRequest sitesList (pageParams emptyParams 0 200),
                        Inr (JObj [(''data'', JArr [JNull]), (''totalCount'', JNum (Finite 1))]))])))"
  by (simp add: resolveSiteId_def looks_like_uuid_def findCmd_sites
      executeAllPages_def paginatable_sitesList executeCommand_def recording_def mockClient_def
      site_matches_def Let_def)

text \<open>
  C8. When the cache is unset, the listing fetch succeeds, and no entry of the listing
  has an \<^verbatim>\<open>internalReference\<close> or an \<^verbatim>\<open>id\<close> equal to the symbolic input (the listing
  of the declared type: a list of entries, or no \<^verbatim>\<open>data\<close> at all, as in the answer
  \<^verbatim>\<open>{}\<close>), the input is returned unchanged, no error is raised and the cache stays
  unset; and a symbolic resolution that starts with the cache unset invokes the transport
  at least once: the listing is searched again.
\<close>

theorem resolveSiteId_no_match:
  "(\<not> looks_like_uuid sid \<and>
    executeAllPages fuel sitesList emptyParams client 200 s = Some (Inr result, s') \<and>
    listing_entries result = Some entries \<and>
    (\<forall>e \<in> set entries. e \<noteq> JNull \<and>
        get_prop e ''internalReference'' \<noteq> Inr (Some (JStr sid)) \<and>
        get_prop e ''id'' \<noteq> Inr (Some (JStr sid)))
    \<longrightarrow> resolveSiteId fuel client sid (JNull, s) = Some (Inr (JStr sid), (JNull, s')))
   \<and>
   (\<not> looks_like_uuid sid' \<and>
    resolveSiteId fuel' (recording client') sid' (JNull, (t, calls))
      = Some (r, (cache', (t', calls')))
    \<longrightarrow> length calls < length calls')"
proof (intro conjI impI)
  assume a: "\<not> looks_like_uuid sid \<and>
    executeAllPages fuel sitesList emptyParams client 200 s = Some (Inr result, s') \<and>
    listing_entries result = Some entries \<and>
    (\<forall>e \<in> set entries. e \<noteq> JNull \<and>
        get_prop e ''internalReference'' \<noteq> Inr (Some (JStr sid)) \<and>
        get_prop e ''id'' \<noteq> Inr (Some (JStr sid)))"
  then have "\<forall>e \<in> set entries. site_matches sid e = Inr False"
    by (auto intro: site_matches_False)
  then have nm: "js_find (site_matches sid) entries = Inr None"
    by (rule js_find_no_match)
  from a have "get_prop result ''data'' = Inr None \<or>
      get_prop result ''data'' = Inr (Some JNull) \<or>
      get_prop result ''data'' = Inr (Some (JArr entries))"
    by (auto simp: listing_entries_def split: sum.splits option.splits json.splits)
  with a nm show "resolveSiteId fuel client sid (JNull, s) = Some (Inr (JStr sid), (JNull, s'))"
    by (auto simp: resolveSiteId_def findCmd_sites cached_or_def)
next
  assume b: "\<not> looks_like_uuid sid' \<and>
    resolveSiteId fuel' (recording client') sid' (JNull, (t, calls))
      = Some (r, (cache', (t', calls')))"
  then obtain res u where run:
    "executeAllPages fuel' sitesList emptyParams (recording client') 200 (t, calls)
       = Some (res, u)" and u: "snd u = calls'"
    by (auto simp: resolveSiteId_def findCmd_sites
        split: option.splits sum.splits prod.splits json.splits bool.splits)
  obtain t'' where "u = (t'', calls')" using u by (cases u) simp
  with run have "executeAllPages fuel' sitesList emptyParams (recording client') 200 (t, calls)
       = Some (res, (t'', calls'))"
    by simp
  then show "length calls < length calls'"
    by (rule executeAllPages_calls_grow)
qed

text \<open>
  The instances: a listing whose one entry is the site \<^verbatim>\<open>default\<close> and the empty answer
  \<^verbatim>\<open>{}\<close>, each searched for \<^verbatim>\<open>branch\<close>; and, after the first of them, a resolution of
  \<^verbatim>\<open>default\<close> that fetches the listing a second time.
\<close>

theorem resolveSiteId_no_match_witness:
  "\<not> looks_like_uuid ''branch'' \<and>
   resolveSiteId 1
      (recording (mockClient
         [JObj [(''data'', JArr
                  [JObj [(''id'', JStr ''0a1b2c3d-0000-4000-8000-000000000001''),
                         (''internalReference'', JStr ''default'')]]),
                (''totalCount'', JNum (Finite 1))]]))
      ''branch'' (JNull, (0, []))
    = Some (Inr (JStr ''branch''),
            (JNull,
             (1, [(resolveRequest sitesList (pageParams emptyParams 0 200),
                  Inr (JObj [(''data'', JArr
                         [JObj [(''id'', JStr ''0a1b2c3d-0000-4000-8000-000000000001''),
                                (''internalReference'', JStr ''default'')]]),
                       (''totalCount'', JNum (Finite 1))]))]))) \<and>
   resolveSiteId 1 (recording (mockClient [JObj []])) ''branch'' (JNull, (0, []))
    = Some (Inr (JStr ''branch''),
            (JNull,
             (1, [(resolveRequest sitesList (pageParams emptyParams 0 200), Inr (JObj []))]))) \<and>
   length ([] :: call_log)
     < length [(resolveRequest sitesList (pageParams emptyParams 0 200),
                  Inr (JObj [(''data'', JArr
                         [JObj [(''id'', JStr ''0a1b2c3d-0000-4000-8000-000000000001''),
                                (''internalReference'', JStr ''default'')]]),
                       (''totalCount'', JNum (Finite 1))]) :: error + json)] \<and>
   resolveSiteId 1
      (recording (mockClient
         [JObj [(''data'', JArr
                  [JObj [(''id'', JStr ''0a1b2c3d-0000-4000-8000-000000000001''),
                         (''internalReference'', JStr ''default'')]]),
                (''totalCount'', JNum (Finite 1))],
          JObj [(''data'', JArr
                  [JObj [(''id'', JStr ''0a1b2c3d-0000-4000-8000-000000000001''),
                         (''internalReference'', JStr ''default'')]]),
                (''totalCount'', JNum (Finite 1))]]))
      ''default''
      (JNull,
       (1, [(resolveRequest sitesList (pageParams emptyParams 0 200),
             Inr (JObj [(''data'', JArr
                    [JObj [(''id'', JStr ''0a1b2c3d-0000-4000-8000-000000000001''),
                           (''internalReference'', JStr ''default'')]]),
                  (''totalCount'', JNum (Finite 1))]))]))
    = Some (Inr (JStr ''0a1b2c3d-0000-4000-8000-000000000001''),
            (JStr ''0a1b2c3d-0000-4000-8000-000000000001'',
             (2, [(resolveRequest sitesList (pageParams emptyParams 0 200),
                   Inr (JObj [(''data'', JArr
                          [JObj [(''id'', JStr ''0a1b2c3d-0000-4000-8000-000000000001''),
                                 (''internalReference'', JStr ''default'')]]),
                        (''totalCount'', JNum (Finite 1))])),
                  (resolveRequest sitesList (pageParams emptyParams 0 200),
                   Inr (JObj [(''data'', JArr
                          [JObj [(''id'', JStr ''0a1b2c3d-0000-4000-8000-000000000001''),
                                 (''internalReference'', JStr ''default'')]]),
                        (''totalCount'', JNum (Finite 1))]))])))"
proof -
  let ?entry = "JObj [(''id'', JStr ''0a1b2c3d-0000-4000-8000-000000000001''),
                      (''internalReference'', JStr ''default'')]"
  let ?page = "JObj [(''data'', JArr [?entry]), (''totalCount'', JNum (Finite 1))]"
  let ?req = "resolveRequest sitesList (pageParams emptyParams 0 200)"
  let ?calls = "[(?req, Inr ?page)]"
  have sym: "\<not> looks_like_uuid ''branch''"
    by (simp add: looks_like_uuid_def)
  have fetch: "executeAllPages 1 sitesList emptyParams (recording (mockClient [?page])) 200 (0, [])
      = Some (Inr ?page, (1, ?calls))"
    by (simp add: executeAllPages_def paginatable_sitesList executeCommand_def recording_def
        mockClient_def Let_def)
  have data: "listing_entries ?page = Some [?entry]" by (simp add: listing_entries_def)
  have none: "\<forall>e \<in> set [?entry]. e \<noteq> JNull \<and>
        get_prop e ''internalReference'' \<noteq> Inr (Some (JStr ''branch'')) \<and>
        get_prop e ''id'' \<noteq> Inr (Some (JStr ''branch''))"
    by simp
  have first: "resolveSiteId 1 (recording (mockClient [?page])) ''branch'' (JNull, (0, []))
      = Some (Inr (JStr ''branch''), (JNull, (1, ?calls)))"
    using resolveSiteId_no_match[THEN conjunct1, rule_format, of "''branch''" 1
        "recording (mockClient [?page])" "(0, [])" ?page "(1, ?calls)" "[?entry]"]
      sym fetch data none
    by simp
  have fetch0: "executeAllPages 1 sitesList emptyParams (recording (mockClient [JObj []])) 200 (0, [])
      = Some (Inr (JObj []), (1, [(?req, Inr (JObj []))]))"
    by (simp add: executeAllPages_def paginatable_sitesList executeCommand_def recording_def
        mockClient_def Let_def)
  have data0: "listing_entries (JObj []) = Some []" by (simp add: listing_entries_def)
  have empty: "resolveSiteId 1 (recording (mockClient [JObj []])) ''branch'' (JNull, (0, []))
      = Some (Inr (JStr ''branch''), (JNull, (1, [(?req, Inr (JObj []))])))"
    using resolveSiteId_no_match[THEN conjunct1, rule_format, of "''branch''" 1
        "recording (mockClient [JObj []])" "(0, [])" "JObj []" "(1, [(?req, Inr (JObj []))])" "[]"]
      sym fetch0 data0
    by simp
  have grow: "length ([] :: call_log) < length ?calls"
    using resolveSiteId_no_match[THEN conjunct2, rule_format, of "''branch''" 1
        "mockClient [?page]" 0 "[]" "Inr (JStr ''branch'')" JNull 1 ?calls] sym first
    by simp
  have again: "resolveSiteId 1 (recording (mockClient [?page, ?page])) ''default'' (JNull, (1, ?calls))
      = Some (Inr (JStr ''0a1b2c3d-0000-4000-8000-000000000001''),
              (JStr ''0a1b2c3d-0000-4000-8000-000000000001'',
               (2, [(?req, Inr ?page), (?req, Inr ?page)])))"
    by (simp add: resolveSiteId_def looks_like_uuid_def findCmd_sites
        executeAllPages_def paginatable_sitesList executeCommand_def recording_def mockClient_def
        site_matches_def Let_def)
  from sym first empty grow again show ?thesis by simp
qed

section \<open>Schema unfolding: the claim\<close>

lemma toJsonSchema_depth_exhausted:
  "maxDepth \<le> 0 \<Longrightarrow> toJsonSchema spec node maxDepth seen = placeholder"
  by (subst toJsonSchema.simps) simp

lemma toJsonSchema_missing_ref:
  assumes "truthy_str (s_ref node) = Some ref" and "resolveRef spec ref = None"
  shows "toJsonSchema spec node maxDepth seen = placeholder"
  using assms by (subst toJsonSchema.simps) simp

text \<open>
  C9. Unfolding terminates on every document, node, depth bound and set of references
  already seen: every input lies in the well-founded part of the function's own call
  relation (each recursive call is made with a positive bound and lowers it by one),
  which is what \<open>toJsonSchema_dom\<close> says; the cycles of a document play no part in it.
  With a depth bound of 0 the result is the placeholder \<^verbatim>\<open>{ type: "object" }\<close>; a
  reference that the document does not define yields the placeholder as well, at every
  depth. On a document whose schemas refer to each other in a cycle, unfolding at depth
  10 stops where the cycle closes.
\<close>

theorem toJsonSchema_terminates:
  "toJsonSchema_dom (spec, node, maxDepth, seen) \<and>
   toJsonSchema spec node 0 seen = JObj [(''type'', JStr ''object'')] \<and>
   (truthy_str (s_ref node) = Some ref \<and> resolveRef spec ref = None \<longrightarrow>
      toJsonSchema spec node maxDepth seen = JObj [(''type'', JStr ''object'')]) \<and>
   toJsonSchema cyclicSpec (refNode ''#/components/schemas/A'') 10 {}
     = JObj [(''type'', JStr ''array''),
             (''items'', JObj [(''oneOf'', JArr
                [JObj [(''type'', JStr ''object'')],
                 JObj [(''type'', JStr ''string''), (''enum'', JArr [JStr ''x'', JStr ''y''])]])])]"
proof (intro conjI impI)
  show "toJsonSchema_dom (spec, node, maxDepth, seen)"
    using "toJsonSchema.termination"[of "measure (\<lambda>(spec, schemaOrRef, maxDepth, seen). nat maxDepth)"]
    by auto
  show "toJsonSchema spec node 0 seen = JObj [(''type'', JStr ''object'')]"
    by (simp add: toJsonSchema_depth_exhausted placeholder_def del: toJsonSchema.simps)
  show "toJsonSchema spec node maxDepth seen = JObj [(''type'', JStr ''object'')]"
    if "truthy_str (s_ref node) = Some ref \<and> resolveRef spec ref = None"
    using that toJsonSchema_missing_ref[of node ref spec maxDepth seen]
    by (simp add: placeholder_def del: toJsonSchema.simps)
  show "toJsonSchema cyclicSpec (refNode ''#/components/schemas/A'') 10 {}
     = JObj [(''type'', JStr ''array''),
             (''items'', JObj [(''oneOf'', JArr
                [JObj [(''type'', JStr ''object'')],
                 JObj [(''type'', JStr ''string''), (''enum'', JArr [JStr ''x'', JStr ''y''])]])])]"
    by (simp add: cyclicSpec_def refNode_def truthy_str_def resolveRef_def js_replace_def
        placeholder_def with_description_def)
qed

theorem toJsonSchema_terminates_witness:
  "truthy_str (s_ref (refNode ''#/components/schemas/Missing''))
     = Some ''#/components/schemas/Missing'' \<and>
   resolveRef cyclicSpec ''#/components/schemas/Missing'' = None \<and>
   toJsonSchema cyclicSpec (refNode ''#/components/schemas/Missing'') 3 {}
     = JObj [(''type'', JStr ''object'')] \<and>
   toJsonSchema cyclicSpec (refNode ''#/components/schemas/Node'') 0 {}
     = JObj [(''type'', JStr ''object'')]"
proof -
  have r: "truthy_str (s_ref (refNode ''#/components/schemas/Missing''))
     = Some ''#/components/schemas/Missing''"
    by (simp add: refNode_def truthy_str_def)
  have m: "resolveRef cyclicSpec ''#/components/schemas/Missing'' = None"
    by (simp add: resolveRef_def cyclicSpec_def js_replace_def)
  have "toJsonSchema cyclicSpec (refNode ''#/components/schemas/Missing'') 3 {}
     = JObj [(''type'', JStr ''object'')]"
    using toJsonSchema_terminates[of cyclicSpec "refNode ''#/components/schemas/Missing''" 3 "{}"
        "''#/components/schemas/Missing''", THEN conjunct2, THEN conjunct2, THEN conjunct1] r m
    by (simp del: toJsonSchema.simps)
  moreover have "toJsonSchema cyclicSpec (refNode ''#/components/schemas/Node'') 0 {}
     = JObj [(''type'', JStr ''object'')]"
    by (rule toJsonSchema_terminates[THEN conjunct2, THEN conjunct1])
  ultimately show ?thesis using r m by (simp del: toJsonSchema.simps)
qed

end
